theory Spec2Isabelle
  imports Complex_Main "HOL-Library.Monad_Syntax"
begin

section \<open>JavaScript numbers\<close>

text \<open>
  The program computes with JavaScript numbers. They are modelled as real numbers: the
  rounding and the overflow of IEEE doubles are outside this part of the development.
  A computation whose JavaScript result is not a finite number (\<open>NaN\<close>,
  \<open>Infinity\<close>) returns \<open>None\<close>.

  \<open>Math.pow(x, y)\<close>: any base to the power 0 is 1 (also \<open>Math.pow(0, 0)\<close>);
  a positive base is the real power; base 0 gives 0 for a positive exponent and
  \<open>Infinity\<close> for a negative one; a negative base is defined for an integer
  exponent only, and gives \<open>NaN\<close> otherwise.
\<close>

definition Math_pow :: "real \<Rightarrow> real \<Rightarrow> real option" where
  "Math_pow x y =
     (if y = 0 then Some 1
      else if 0 < x then Some (x powr y)
      else if x = 0 then (if 0 < y then Some 0 else None)
      else if y \<in> \<int> then Some (x powi \<lfloor>y\<rfloor>)
      else None)"

text \<open>The remainder operator \<open>x % y\<close>: the quotient is truncated towards zero, so
  the result has the sign of \<open>x\<close>.\<close>

definition js_trunc :: "real \<Rightarrow> int" where
  "js_trunc r = (if 0 \<le> r then \<lfloor>r\<rfloor> else \<lceil>r\<rceil>)"

definition js_rem :: "real \<Rightarrow> real \<Rightarrow> real" where
  "js_rem x y = x - y * of_int (js_trunc (x / y))"

section \<open>Easing functions (src/utils/easing.ts)\<close>

definition ease_linear :: "real \<Rightarrow> real" where
  "ease_linear t = t"

definition ease_inQuad :: "real \<Rightarrow> real" where
  "ease_inQuad t = t * t"

definition ease_outQuad :: "real \<Rightarrow> real" where
  "ease_outQuad t = t * (2 - t)"

definition ease_inOutQuad :: "real \<Rightarrow> real" where
  "ease_inOutQuad t = (if t < 0.5 then 2 * t * t else - 1 + (4 - 2 * t) * t)"

definition ease_inCubic :: "real \<Rightarrow> real" where
  "ease_inCubic t = t * t * t"

text \<open>\<open>(--t) * t * t + 1\<close>: the decrement happens first, so all three factors are
  \<open>t - 1\<close>.\<close>

definition ease_outCubic :: "real \<Rightarrow> real" where
  "ease_outCubic t = (let t' = t - 1 in t' * t' * t' + 1)"

definition ease_inOutCubic :: "real \<Rightarrow> real" where
  "ease_inOutCubic t =
     (if t < 0.5 then 4 * t * t * t else (t - 1) * (2 * t - 2) * (2 * t - 2) + 1)"

definition ease_outExpo :: "real \<Rightarrow> real option" where
  "ease_outExpo t = (if t = 1 then Some 1 else map_option (\<lambda>p. 1 - p) (Math_pow 2 (- 10 * t)))"

definition ease_inExpo :: "real \<Rightarrow> real option" where
  "ease_inExpo t = (if t = 0 then Some 0 else Math_pow 2 (10 * (t - 1)))"

definition ease_outBack :: "real \<Rightarrow> real option" where
  "ease_outBack t =
     (let c1 = 1.70158; c3 = c1 + 1 in
      do {
        p3 \<leftarrow> Math_pow (t - 1) 3;
        p2 \<leftarrow> Math_pow (t - 1) 2;
        Some (1 + c3 * p3 + c1 * p2)
      })"

definition ease_elastic :: "real \<Rightarrow> real option" where
  "ease_elastic t =
     (if t = 0 then Some 0
      else if t = 1 then Some 1
      else map_option (\<lambda>p. - p * sin ((t * 10 - 10.75) * ((2 * pi) / 3)))
             (Math_pow 2 (10 * t - 10)))"

definition ease_dramaticRamp :: "real \<Rightarrow> real option" where
  "ease_dramaticRamp t =
     (if t < 0.83 then Some (t / 0.83 * 0.3)
      else let normalized = (t - 0.83) / 0.17 in
        map_option (\<lambda>p. 0.3 + p * 0.7) (Math_pow normalized 2.5))"

definition ease_finalCountdown :: "real \<Rightarrow> real option" where
  "ease_finalCountdown t =
     (if t < 0.98 then ease_dramaticRamp t
      else let normalized = (t - 0.98) / 0.02 in
        map_option (\<lambda>p. 0.9 + p * 0.1) (Math_pow normalized 1.5))"

section \<open>Math utilities (src/utils/math.ts)\<close>

definition smoothLerp :: "real \<Rightarrow> real \<Rightarrow> real \<Rightarrow> real \<Rightarrow> real option" where
  "smoothLerp current target speed dt =
     map_option (\<lambda>p. let factor = 1 - p in current + (target - current) * factor)
       (Math_pow (1 - speed) (dt * 60))"

definition clamp :: "real \<Rightarrow> real \<Rightarrow> real \<Rightarrow> real" where
  "clamp v lo hi = max lo (min hi v)"

definition lerp :: "real \<Rightarrow> real \<Rightarrow> real \<Rightarrow> real" where
  "lerp a b t = a + (b - a) * t"

section \<open>Countdown state (src/hooks/useCountdown.ts, src/constants/phases.ts)\<close>

datatype Phase = dormant | calm | building | intense | final | climax | celebration

text \<open>The order of the phases, from the start of the countdown to its end.\<close>

fun phase_rank :: "Phase \<Rightarrow> nat" where
  "phase_rank dormant = 0"
| "phase_rank calm = 1"
| "phase_rank building = 2"
| "phase_rank intense = 3"
| "phase_rank final = 4"
| "phase_rank climax = 5"
| "phase_rank celebration = 6"

text \<open>\<open>PHASE_THRESHOLDS\<close>, in milliseconds.\<close>

definition PHASE_THRESHOLDS_calm :: real where
  "PHASE_THRESHOLDS_calm = 60 * 60 * 1000"

definition PHASE_THRESHOLDS_building :: real where
  "PHASE_THRESHOLDS_building = 10 * 60 * 1000"

definition PHASE_THRESHOLDS_intense :: real where
  "PHASE_THRESHOLDS_intense = 60 * 1000"

definition PHASE_THRESHOLDS_final :: real where
  "PHASE_THRESHOLDS_final = 10 * 1000"

definition PHASE_THRESHOLDS_climax :: real where
  "PHASE_THRESHOLDS_climax = 0"

definition PHASE_THRESHOLDS_celebrationDelay :: real where
  "PHASE_THRESHOLDS_celebrationDelay = 6000"

definition calculatePhase :: "real \<Rightarrow> Phase" where
  "calculatePhase remaining =
     (if remaining \<le> - PHASE_THRESHOLDS_celebrationDelay then celebration
      else if remaining \<le> 0 then climax
      else if remaining \<le> PHASE_THRESHOLDS_final then final
      else if remaining \<le> PHASE_THRESHOLDS_intense then intense
      else if remaining \<le> PHASE_THRESHOLDS_building then building
      else if remaining \<le> PHASE_THRESHOLDS_calm then calm
      else dormant)"

record TimeDisplay =
  hours :: int
  minutes :: int
  seconds :: int
  milliseconds :: real

text \<open>\<open>totalSeconds\<close> is a non-negative integer, so \<open>%\<close> on it is \<open>mod\<close> and
  \<open>Math.floor\<close> of its quotient is \<open>div\<close>.\<close>

definition formatTimeDisplay :: "real \<Rightarrow> TimeDisplay" where
  "formatTimeDisplay remaining =
     (let totalSeconds = max 0 \<lfloor>remaining / 1000\<rfloor> in
      \<lparr> hours = totalSeconds div 3600,
        minutes = (totalSeconds mod 3600) div 60,
        seconds = totalSeconds mod 60,
        milliseconds = max 0 (js_rem remaining 1000) \<rparr>)"

record CountdownState =
  timeRemaining :: real
  cs_progress :: real
  cs_phase :: Phase
  display :: TimeDisplay
  isPast :: bool

text \<open>\<open>calculateState(targetDate)\<close> reads the clock once (\<open>Date.now()\<close>); the
  reading is the second argument.\<close>

definition calculateState :: "real \<Rightarrow> real \<Rightarrow> CountdownState" where
  "calculateState targetDate now =
     (let remaining = targetDate - now;
          totalDuration = 60 * 60 * 1000;
          progress = max 0 (min 1 (1 - (remaining / totalDuration)))
      in \<lparr> timeRemaining = remaining,
           cs_progress = progress,
           cs_phase = calculatePhase remaining,
           display = formatTimeDisplay remaining,
           isPast = (remaining \<le> 0) \<rparr>)"

section \<open>Colors (src/constants/colors.ts)\<close>

definition COLORS_glow_cyan :: nat where "COLORS_glow_cyan = 0x00F5FF"
definition COLORS_glow_magenta :: nat where "COLORS_glow_magenta = 0xFF00FF"
definition COLORS_glow_gold :: nat where "COLORS_glow_gold = 0xFFD700"
definition COLORS_glow_white :: nat where "COLORS_glow_white = 0xFFFFFF"
definition COLORS_glow_orange :: nat where "COLORS_glow_orange = 0xFF6B35"

definition CELEBRATION_COLORS :: "nat list" where
  "CELEBRATION_COLORS = [0xFFD700, 0xFF00FF, 0x00F5FF, 0xFF6B35, 0xFF1493, 0x39FF14, 0x4169E1]"

section \<open>BurstSystem (the module \<open>./systems/BurstSystem\<close>, src/unnamed/part_006)\<close>

text \<open>
  A layer owns three typed arrays (flat lists here: particle \<open>i\<close> has the entries
  \<open>3 * i\<close>, \<open>3 * i + 1\<close>, \<open>3 * i + 2\<close>) and a \<open>THREE.Points\<close> object, of which the
  model keeps the visibility, the material's opacity and the array of the geometry's
  position attribute. That array is a copy (\<open>positions.slice()\<close>) of \<open>positions\<close>, so
  the two are separate fields. A write to a typed array outside its range does nothing,
  as \<open>xs[i := v]\<close> does. The reads of \<open>update\<close> are in range for every layer that
  \<open>createLayer\<close> builds (lemma \<open>createLayer_lengths\<close>).

  \<open>Math.random()\<close> is a stream \<open>rnd\<close> of numbers in \<open>[0, 1)\<close>, read in the order of
  the calls.
\<close>

record BurstLayerConfig =
  cfg_count :: nat
  cfg_color :: nat
  cfg_size :: real
  cfg_speed :: real

record BurstLayer =
  points_visible :: bool
  points_positions :: "real list"
  points_opacity :: real
  velocities :: "real list"
  lifetimes :: "real list"
  positions :: "real list"
  startTime :: "real option"
  delay :: real
  config :: BurstLayerConfig

record BurstSystem =
  layers :: "BurstLayer list"

definition GRAVITY :: real where
  "GRAVITY = - 9.8"

definition FADE_DURATION :: real where
  "FADE_DURATION = 5.0"

definition createLayer :: "nat \<Rightarrow> nat \<Rightarrow> real \<Rightarrow> real \<Rightarrow> (nat \<Rightarrow> real) \<Rightarrow> BurstLayer" where
  "createLayer n color sz speed rnd =
     (let zeros = replicate (n * 3) 0;
          vs = concat (map (\<lambda>i.
                 let theta = rnd (4 * i) * pi * 2;
                     phi = arccos (2 * rnd (4 * i + 1) - 1);
                     velocityMagnitude = (0.5 + rnd (4 * i + 2) * 0.5) * speed * 30
                 in [sin phi * cos theta * velocityMagnitude,
                     sin phi * sin theta * velocityMagnitude,
                     cos phi * velocityMagnitude]) [0..<n]);
          ls = map (\<lambda>i. 2.5 + rnd (4 * i + 3) * 3.0) [0..<n]
      in \<lparr> points_visible = False,
           points_positions = zeros,
           points_opacity = 1.0,
           velocities = vs,
           lifetimes = ls,
           positions = zeros,
           startTime = None,
           delay = 0,
           config = \<lparr> cfg_count = n, cfg_color = color, cfg_size = sz, cfg_speed = speed \<rparr> \<rparr>)"

definition layerConfigs :: "BurstLayerConfig list" where
  "layerConfigs =
     [\<lparr> cfg_count = 3000, cfg_color = COLORS_glow_gold, cfg_size = 0.35, cfg_speed = 1.0 \<rparr>,
      \<lparr> cfg_count = 2000, cfg_color = COLORS_glow_magenta, cfg_size = 0.3, cfg_speed = 0.85 \<rparr>,
      \<lparr> cfg_count = 2000, cfg_color = COLORS_glow_cyan, cfg_size = 0.3, cfg_speed = 1.15 \<rparr>,
      \<lparr> cfg_count = 1500, cfg_color = COLORS_glow_white, cfg_size = 0.4, cfg_speed = 0.7 \<rparr>,
      \<lparr> cfg_count = 1000, cfg_color = COLORS_glow_orange, cfg_size = 0.25, cfg_speed = 1.3 \<rparr>]"

text \<open>The \<open>forEach\<close> of \<open>createLayers\<close>, from layer \<open>index\<close> on; a layer of \<open>n\<close>
  particles reads \<open>4 * n\<close> random numbers.\<close>

fun createLayers_from :: "BurstLayerConfig list \<Rightarrow> nat \<Rightarrow> (nat \<Rightarrow> real) \<Rightarrow> BurstLayer list" where
  "createLayers_from [] index rnd = []"
| "createLayers_from (c # cs) index rnd =
     (createLayer (cfg_count c) (cfg_color c) (cfg_size c) (cfg_speed c) rnd)
        \<lparr> delay := real index * 0.1, config := c \<rparr>
     # createLayers_from cs (Suc index) (\<lambda>j. rnd (j + 4 * cfg_count c))"

definition createLayers :: "(nat \<Rightarrow> real) \<Rightarrow> BurstLayer list" where
  "createLayers rnd = createLayers_from layerConfigs 0 rnd"

text \<open>The constructor: \<open>layers\<close> starts empty and \<open>createLayers\<close> pushes the five
  layers.\<close>

definition BurstSystem_new :: "(nat \<Rightarrow> real) \<Rightarrow> BurstSystem" where
  "BurstSystem_new rnd = \<lparr> layers = createLayers rnd \<rparr>"

definition trigger_layer :: "real \<Rightarrow> BurstLayer \<Rightarrow> BurstLayer" where
  "trigger_layer t0 layer =
     layer \<lparr> startTime := Some (t0 + delay layer),
             points_visible := True,
             points_positions := map (\<lambda>_. 0) (points_positions layer),
             points_opacity := 1.0 \<rparr>"

definition BurstSystem_trigger :: "real \<Rightarrow> BurstSystem \<Rightarrow> BurstSystem" where
  "BurstSystem_trigger t0 sys = sys \<lparr> layers := map (trigger_layer t0) (layers sys) \<rparr>"

text \<open>One round of the particle loop of \<open>update\<close>, on the attribute's array.\<close>

definition update_particle :: "real \<Rightarrow> BurstLayer \<Rightarrow> real list \<Rightarrow> nat \<Rightarrow> real list" where
  "update_particle elapsed layer ps i =
     (let i3 = i * 3;
          particleLifetime = lifetimes layer ! i
      in if elapsed > particleLifetime
         then ps[i3 := 0, i3 + 1 := - 1000, i3 + 2 := 0]
         else
           let particleT = elapsed / particleLifetime;
               particleEasedT = ease_outCubic particleT
           in ps[i3 := velocities layer ! i3 * particleEasedT * particleLifetime,
                 i3 + 1 := velocities layer ! (i3 + 1) * particleEasedT * particleLifetime
                             + 0.5 * GRAVITY * elapsed * elapsed,
                 i3 + 2 := velocities layer ! (i3 + 2) * particleEasedT * particleLifetime])"

definition update_layer :: "real \<Rightarrow> BurstLayer \<Rightarrow> BurstLayer" where
  "update_layer time layer =
     (case startTime layer of
        None \<Rightarrow> layer
      | Some t0 \<Rightarrow>
          let elapsed = time - t0 in
          if elapsed < 0 then layer
          else
            let ps = foldl (update_particle elapsed layer) (points_positions layer)
                       [0..<length (lifetimes layer)];
                fadeProgress = min (elapsed / FADE_DURATION) 1;
                opacity = 1 - ease_inQuad fadeProgress
            in layer \<lparr> points_positions := ps,
                       points_opacity := max 0 opacity,
                       points_visible := (if opacity \<le> 0 then False else points_visible layer) \<rparr>)"

definition BurstSystem_update :: "real \<Rightarrow> BurstSystem \<Rightarrow> BurstSystem" where
  "BurstSystem_update time sys = sys \<lparr> layers := map (update_layer time) (layers sys) \<rparr>"

text \<open>What a caller can do with a living burst system, and a run of such calls.\<close>

datatype BurstCall = Trigger real | Update real

fun BurstSystem_call :: "BurstSystem \<Rightarrow> BurstCall \<Rightarrow> BurstSystem" where
  "BurstSystem_call sys (Trigger t0) = BurstSystem_trigger t0 sys"
| "BurstSystem_call sys (Update time) = BurstSystem_update time sys"

definition BurstSystem_run :: "BurstCall list \<Rightarrow> BurstSystem \<Rightarrow> BurstSystem" where
  "BurstSystem_run calls sys = foldl BurstSystem_call sys calls"

text \<open>What no call changes in a layer: the delay, the velocities, the lifetimes, the
  array \<open>positions\<close>, and the size of the attribute's array.\<close>

definition fixed_part :: "BurstLayer \<Rightarrow> real \<times> real list \<times> real list \<times> real list \<times> nat" where
  "fixed_part l = (delay l, velocities l, lifetimes l, positions l, length (points_positions l))"

section \<open>FireworkSystem (src/scene/systems/FireworkSystem.ts)\<close>

text \<open>
  A firework owns a \<open>THREE.Points\<close> object, known here by a number, with the opacity of
  its material. The array \<open>positions\<close> is handed to the geometry's position attribute as
  it is, so the firework's \<open>positions\<close> and the attribute's array are one array: one
  field. The color and size attributes of the geometry are written once and never read;
  they are left out.

  Of the \<open>THREE.Scene\<close> the system keeps the objects attached to it, and the model
  records which geometries and materials were disposed.

  \<open>spawn\<close> makes at least 400 particles, so the three reads of the start position in
  \<open>update\<close> are in range, and so is the read of each particle's velocity.
\<close>

record FireworkParticle =
  fw_points :: nat
  fw_velocities :: "(real \<times> real \<times> real) list"
  fw_positions :: "real list"
  fw_opacity :: real
  fw_startTime :: real
  fw_lifetime :: real
  fw_color :: nat

record FireworkSystem =
  fireworks :: "FireworkParticle list"
  scene_children :: "nat list"
  disposed_geometries :: "nat list"
  disposed_materials :: "nat list"
  next_object :: nat

definition FireworkSystem_new :: FireworkSystem where
  "FireworkSystem_new =
     \<lparr> fireworks = [], scene_children = [], disposed_geometries = [],
       disposed_materials = [], next_object = 0 \<rparr>"

text \<open>\<open>spawn\<close> reads five random numbers, then five for each particle, then one for the
  lifetime. An index outside \<open>CELEBRATION_COLORS\<close> would give \<open>undefined\<close>, which
  \<open>THREE.Color\<close> reads as white.\<close>

definition spawn :: "real \<Rightarrow> (nat \<Rightarrow> real) \<Rightarrow> FireworkSystem \<Rightarrow> FireworkSystem" where
  "spawn currentTime rnd sys =
     (let angle = rnd 0 * pi * 2;
          distance = 8 + rnd 1 * 18;
          x = cos angle * distance;
          z = sin angle * distance;
          y = - 5 + rnd 2 * 18;
          k = nat \<lfloor>rnd 3 * real (length CELEBRATION_COLORS)\<rfloor>;
          colorHex = (if k < length CELEBRATION_COLORS then CELEBRATION_COLORS ! k else 0xFFFFFF);
          particleCount = 400 + nat \<lfloor>rnd 4 * 300\<rfloor>;
          ps = concat (replicate particleCount [x, y, z]);
          vs = map (\<lambda>i.
                 let speed = 4 + rnd (5 + 5 * i) * 10;
                     phi = rnd (5 + 5 * i + 1) * pi * 2;
                     theta = arccos (2 * rnd (5 + 5 * i + 2) - 1)
                 in (speed * sin theta * cos phi,
                     speed * sin theta * sin phi,
                     speed * cos theta)) [0..<particleCount];
          points = next_object sys;
          lifetime = 2.5 + rnd (5 + 5 * particleCount)
      in sys \<lparr> fireworks := fireworks sys @
                  [\<lparr> fw_points = points, fw_velocities = vs, fw_positions = ps,
                     fw_opacity = 1, fw_startTime = currentTime, fw_lifetime = lifetime,
                     fw_color = colorHex \<rparr>],
               scene_children := scene_children sys @ [points],
               next_object := Suc (next_object sys) \<rparr>)"

text \<open>The body of the first loop of \<open>update\<close> for a firework that has not expired: the
  start position is read from the array the loop then writes to.\<close>

definition move_particle ::
    "real \<Rightarrow> real \<Rightarrow> real \<Rightarrow> real \<times> real \<times> real \<Rightarrow> (real \<times> real \<times> real) list
      \<Rightarrow> real list \<Rightarrow> nat \<Rightarrow> real list" where
  "move_particle elapsed easedProgress lifetime start vs ps j =
     (case (start, vs ! j) of ((startX, startY, startZ), (vx, vy, vz)) \<Rightarrow>
        let gravityOffset = - 2.5 * elapsed * elapsed
        in ps[j * 3 := startX + vx * easedProgress * lifetime,
              j * 3 + 1 := startY + vy * easedProgress * lifetime + gravityOffset,
              j * 3 + 2 := startZ + vz * easedProgress * lifetime])"

definition advance :: "real \<Rightarrow> FireworkParticle \<Rightarrow> FireworkParticle" where
  "advance time firework =
     (let elapsed = time - fw_startTime firework;
          normalizedTime = elapsed / fw_lifetime firework;
          easedProgress = ease_outQuad normalizedTime;
          start = (fw_positions firework ! 0, fw_positions firework ! 1, fw_positions firework ! 2);
          ps = foldl (move_particle elapsed easedProgress (fw_lifetime firework) start
                        (fw_velocities firework))
                 (fw_positions firework) [0..<length (fw_velocities firework)]
      in firework \<lparr> fw_positions := ps,
                    fw_opacity := 1 - ease_inQuad normalizedTime \<rparr>)"

text \<open>The first loop: round \<open>i\<close> either notes the index in \<open>toRemove\<close> or moves the
  firework. The loop runs over \<open>i < fireworks.length\<close>, and the length does not change
  in it.\<close>

definition expired :: "real \<Rightarrow> FireworkParticle \<Rightarrow> bool" where
  "expired time firework \<longleftrightarrow> (time - fw_startTime firework) / fw_lifetime firework \<ge> 1"

definition update_round ::
    "real \<Rightarrow> nat list \<times> FireworkParticle list \<Rightarrow> nat \<Rightarrow> nat list \<times> FireworkParticle list" where
  "update_round time st i =
     (case st of (toRemove, fs) \<Rightarrow>
        let firework = fs ! i in
        if expired time firework then (toRemove @ [i], fs)
        else (toRemove, fs[i := advance time firework]))"

text \<open>The second loop, one round: \<open>this.fireworks[index]\<close> is \<open>undefined\<close> outside the
  array, and reading \<open>.points\<close> of it throws a \<open>TypeError\<close>: the result \<open>None\<close>.
  \<open>splice(index, 1)\<close> takes one element out.\<close>

definition remove_round :: "FireworkSystem \<Rightarrow> nat \<Rightarrow> FireworkSystem option" where
  "remove_round sys index =
     (if index < length (fireworks sys)
      then
        let firework = fireworks sys ! index in
        Some (sys \<lparr> scene_children := removeAll (fw_points firework) (scene_children sys),
                    disposed_geometries := disposed_geometries sys @ [fw_points firework],
                    disposed_materials := disposed_materials sys @ [fw_points firework],
                    fireworks := take index (fireworks sys) @ drop (Suc index) (fireworks sys) \<rparr>)
      else None)"

fun remove_rounds :: "FireworkSystem \<Rightarrow> nat list \<Rightarrow> FireworkSystem option" where
  "remove_rounds sys [] = Some sys"
| "remove_rounds sys (index # rest) =
     (case remove_round sys index of
        None \<Rightarrow> None
      | Some sys' \<Rightarrow> remove_rounds sys' rest)"

definition FireworkSystem_update :: "real \<Rightarrow> real \<Rightarrow> FireworkSystem \<Rightarrow> FireworkSystem option" where
  "FireworkSystem_update time dt sys =
     (case foldl (update_round time) ([], fireworks sys) [0..<length (fireworks sys)] of
        (toRemove, fs) \<Rightarrow> remove_rounds (sys \<lparr> fireworks := fs \<rparr>) (rev toRemove))"

text \<open>What the two loops compute. After the first loop every firework that has not
  expired is moved; the second loop takes the expired ones out, the last one first.\<close>

definition settle :: "real \<Rightarrow> FireworkParticle \<Rightarrow> FireworkParticle" where
  "settle time f = (if expired time f then f else advance time f)"

definition taken :: "(FireworkParticle \<Rightarrow> bool) \<Rightarrow> FireworkSystem \<Rightarrow> FireworkSystem" where
  "taken Q sys =
     (let gone = rev (map fw_points (filter Q (fireworks sys))) in
      sys \<lparr> scene_children := foldl (\<lambda>cs p. removeAll p cs) (scene_children sys) gone,
            disposed_geometries := disposed_geometries sys @ gone,
            disposed_materials := disposed_materials sys @ gone,
            fireworks := filter (\<lambda>f. \<not> Q f) (fireworks sys) \<rparr>)"

text \<open>The calls on a firework system, and a run of them.\<close>

datatype FireworkCall = SpawnAt real "nat \<Rightarrow> real" | UpdateAt real real

fun FireworkSystem_call :: "FireworkSystem \<Rightarrow> FireworkCall \<Rightarrow> FireworkSystem option" where
  "FireworkSystem_call sys (SpawnAt time rnd) = Some (spawn time rnd sys)"
| "FireworkSystem_call sys (UpdateAt time dt) = FireworkSystem_update time dt sys"

fun FireworkSystem_run :: "FireworkSystem \<Rightarrow> FireworkCall list \<Rightarrow> FireworkSystem option" where
  "FireworkSystem_run sys [] = Some sys"
| "FireworkSystem_run sys (c # cs) =
     (case FireworkSystem_call sys c of None \<Rightarrow> None | Some sys' \<Rightarrow> FireworkSystem_run sys' cs)"

text \<open>What \<open>spawn\<close> establishes and \<open>update\<close> keeps: lifetimes are positive (so the
  division in \<open>update\<close> is a division of real numbers), and every firework has a
  \<open>THREE.Points\<close> object of its own, made before the next one.\<close>

definition FireworkSystem_inv :: "FireworkSystem \<Rightarrow> bool" where
  "FireworkSystem_inv sys \<longleftrightarrow>
     (\<forall>f\<in>set (fireworks sys). 0 < fw_lifetime f \<and> fw_points f < next_object sys)
     \<and> distinct (map fw_points (fireworks sys))"

text \<open>A small system for examples: two fireworks of one particle each, started at
  times 0 and 2, with a lifetime of 3 seconds.\<close>

definition two_fireworks :: FireworkSystem where
  "two_fireworks =
     \<lparr> fireworks =
         [\<lparr> fw_points = 0, fw_velocities = [(1, 2, 3)], fw_positions = [5, 6, 7],
            fw_opacity = 1, fw_startTime = 0, fw_lifetime = 3, fw_color = 0xFFD700 \<rparr>,
          \<lparr> fw_points = 1, fw_velocities = [(1, 2, 3)], fw_positions = [5, 6, 7],
            fw_opacity = 1, fw_startTime = 2, fw_lifetime = 3, fw_color = 0xFFD700 \<rparr>],
       scene_children = [0, 1], disposed_geometries = [], disposed_materials = [],
       next_object = 2 \<rparr>"

section \<open>The orchestrator (src/scene/TemporalCollapseScene.ts)\<close>

text \<open>
  The orchestrator calls its collaborators (the six particle systems, the renderer, the
  camera, the window's timers and frames) and reads nothing back from them but the
  clock and \<open>Math.random()\<close>. The model keeps the orchestrator's own fields, and a
  trace of the calls it makes, in order; what the clock and \<open>Math.random()\<close> return
  is an argument of each operation.
\<close>

datatype Call =
    burstSystem_trigger real
  | burstSystem_update real
  | burstSystem_dispose
  | shockwaveSystem_triggerClimax real
  | shockwaveSystem_update real
  | shockwaveSystem_dispose
  | flashPlane_triggerFlash real
  | flashPlane_update real real real
  | flashPlane_dispose
  | fireworkSystem_spawn real
  | fireworkSystem_update real real
  | fireworkSystem_dispose
  | starField_update real real real
  | starField_dispose
  | timeParticles_update real real real Phase real real "real option"
  | timeParticles_dispose
  | requestAnimationFrame
  | cancelAnimationFrame nat
  | setTimeout real
  | removeEventListener_resize
  | camera_lookAt real real real
  | camera_updateProjectionMatrix
  | renderer_setSize real real
  | renderer_render
  | renderer_dispose
  | removeChild_domElement
  | scene_traverse_dispose
  | scene_clear

record Scene =
  progress :: real
  phase :: Phase
  smoothProgress :: real
  climaxStartTime :: "real option"
  celebrationStartTime :: "real option"
  lastFireworkTime :: real
  shakeIntensity :: real
  targetShakeIntensity :: real
  pulsePhase :: real
  heartbeatIntensity :: real
  baseFOV :: real
  basePosition :: "real \<times> real \<times> real"
  camera_position :: "real \<times> real \<times> real"
  camera_fov :: real
  camera_aspect :: real
  animationFrameId :: "nat option"
  isDisposed :: bool
  trace :: "Call list"

text \<open>The fields as the class initialises them, for a container of the given aspect
  ratio, before the constructor's first call of \<open>animate\<close>.\<close>

definition Scene_fields :: "real \<Rightarrow> Scene" where
  "Scene_fields aspect =
     \<lparr> progress = 0, phase = dormant, smoothProgress = 0,
       climaxStartTime = None, celebrationStartTime = None, lastFireworkTime = 0,
       shakeIntensity = 0, targetShakeIntensity = 0, pulsePhase = 0,
       heartbeatIntensity = 0, baseFOV = 60, basePosition = (0, 0, 30),
       camera_position = (0, 0, 30), camera_fov = 60, camera_aspect = aspect,
       animationFrameId = None, isDisposed = False, trace = [] \<rparr>"

definition triggerClimax :: "real \<Rightarrow> Scene \<Rightarrow> Scene" where
  "triggerClimax time s =
     s \<lparr> climaxStartTime := Some time,
         targetShakeIntensity := 3.0,
         trace := trace s @ [burstSystem_trigger time,
                             shockwaveSystem_triggerClimax time,
                             flashPlane_triggerFlash 1.0] \<rparr>"

text \<open>\<open>triggerCelebration\<close> hands five callbacks to \<open>setTimeout\<close>, with the delays
  \<open>i * 200\<close>; \<open>celebrationSpawn\<close> is the callback, run when its timer fires.\<close>

definition triggerCelebration :: "real \<Rightarrow> Scene \<Rightarrow> Scene" where
  "triggerCelebration time s =
     s \<lparr> celebrationStartTime := Some time,
         targetShakeIntensity := 0.5,
         trace := trace s @ map (\<lambda>i. setTimeout (real i * 200)) [0..<5] \<rparr>"

definition celebrationSpawn :: "real \<Rightarrow> Scene \<Rightarrow> Scene" where
  "celebrationSpawn time s =
     (if \<not> isDisposed s then s \<lparr> trace := trace s @ [fireworkSystem_spawn time] \<rparr> else s)"

text \<open>\<open>updateProgress(progress, phase)\<close>; \<open>time\<close> is what \<open>clock.getElapsedTime()\<close>
  returns in the trigger it calls.\<close>

definition updateProgress :: "real \<Rightarrow> Phase \<Rightarrow> real \<Rightarrow> Scene \<Rightarrow> Scene" where
  "updateProgress p ph time s =
     (let previousPhase = phase s;
          s1 = s \<lparr> progress := p, phase := ph \<rparr>;
          s2 = (if ph = climax \<and> previousPhase \<noteq> climax then triggerClimax time s1 else s1);
          s3 = (if ph = celebration \<and> previousPhase \<noteq> celebration
                then triggerCelebration time s2 else s2)
      in s3)"

definition handleResize :: "real \<Rightarrow> real \<Rightarrow> Scene \<Rightarrow> Scene" where
  "handleResize width height s =
     (if isDisposed s then s
      else s \<lparr> camera_aspect := width / height,
               trace := trace s @ [camera_updateProjectionMatrix, renderer_setSize width height] \<rparr>)"

text \<open>What one frame reads from outside: the clock (\<open>getElapsedTime()\<close>, the
  \<open>getDelta()\<close> of \<open>animate\<close> and the one of \<open>updateFOV\<close>), the handle that
  \<open>requestAnimationFrame\<close> returns, and the random numbers.\<close>

record Frame =
  clock_elapsedTime :: real
  clock_delta :: real
  clock_delta_fov :: real
  frame_handle :: nat
  random_fireworkInterval :: real
  random_flash :: real
  random_shake :: "real \<times> real \<times> real"

definition updateCamera :: "real \<Rightarrow> real \<Rightarrow> real \<Rightarrow> real \<times> real \<times> real \<Rightarrow> Scene \<Rightarrow> Scene option" where
  "updateCamera time dt dramaticIntensity rnd s =
     (case (basePosition s, camera_position s, rnd) of
        ((baseX, baseY, baseZ), (camX, camY, camZ), (r1, r2, r3)) \<Rightarrow>
          let orbitSpeed = 0.05 + dramaticIntensity * 0.1;
              orbitRadius = 2 + dramaticIntensity * 3;
              targetX = sin (time * orbitSpeed) * orbitRadius;
              targetY = cos (time * orbitSpeed * 0.7) * orbitRadius * 0.5;
              shakeX = (r1 - 0.5) * shakeIntensity s;
              shakeY = (r2 - 0.5) * shakeIntensity s;
              shakeZ = (r3 - 0.5) * shakeIntensity s * 0.5
          in do {
            x \<leftarrow> smoothLerp camX (baseX + targetX + shakeX) 0.05 dt;
            y \<leftarrow> smoothLerp camY (baseY + targetY + shakeY) 0.05 dt;
            z \<leftarrow> smoothLerp camZ (baseZ + shakeZ) 0.05 dt;
            z' \<leftarrow> (case climaxStartTime s of
                     None \<Rightarrow> Some z
                   | Some t0 \<Rightarrow>
                       let climaxElapsed = time - t0 in
                       if climaxElapsed < 0.5 then Some (baseZ + 10 * (1 - climaxElapsed * 2))
                       else if climaxElapsed < 1.5 then
                         let rushProgress = (climaxElapsed - 0.5) / 1.0 in
                         map_option (\<lambda>e. baseZ + 5 * (1 - e)) (ease_outExpo rushProgress)
                       else Some z);
            let lookAtY = sin (time * 0.3) * 0.5 * dramaticIntensity;
            Some (s \<lparr> camera_position := (x, y, z'),
                      trace := trace s @ [camera_lookAt 0 lookAtY 0] \<rparr>)
          })"

text \<open>\<open>this.clock.getDelta() || 0.016\<close>: a delta of 0 is falsy.\<close>

definition updateFOV :: "real \<Rightarrow> real \<Rightarrow> Scene \<Rightarrow> Scene option" where
  "updateFOV dramaticIntensity delta s =
     (let targetFOV = baseFOV s - dramaticIntensity * 15;
          fovPulse = heartbeatIntensity s * dramaticIntensity * 3
      in do {
        fov \<leftarrow> smoothLerp (camera_fov s) (targetFOV + fovPulse) 0.1
                 (if delta = 0 then 0.016 else delta);
        Some (s \<lparr> camera_fov := fov, trace := trace s @ [camera_updateProjectionMatrix] \<rparr>)
      })"

text \<open>The fireworks of the celebration, in \<open>animate\<close>.\<close>

definition spawnDuringCelebration :: "real \<Rightarrow> Frame \<Rightarrow> Scene \<Rightarrow> Scene" where
  "spawnDuringCelebration time f s =
     (if phase s = celebration then
        let fireworkInterval = 0.3 + random_fireworkInterval f * 0.4 in
        if time - lastFireworkTime s > fireworkInterval then
          s \<lparr> lastFireworkTime := time,
              trace := trace s @ [fireworkSystem_spawn time]
                         @ (if random_flash f > 0.7 then [flashPlane_triggerFlash 0.3] else []) \<rparr>
        else s
      else s)"

text \<open>The first part of a frame after the guard: the shared signals, and the
  \<open>update\<close> of every particle system. The dramatic intensity is handed on.\<close>

definition updateSignals :: "real \<Rightarrow> real \<Rightarrow> Scene \<Rightarrow> (real \<times> Scene) option" where
  "updateSignals time dt s =
     do {
       dramaticIntensity \<leftarrow> ease_dramaticRamp (progress s);
       smoothed \<leftarrow> smoothLerp (smoothProgress s) (progress s) 0.1 dt;
       let heartbeatSpeed = 1 + dramaticIntensity * 4;
       let pulse = pulsePhase s + dt * heartbeatSpeed;
       heartbeat \<leftarrow> Math_pow (sin (pulse * pi)) 8;
       shake \<leftarrow> smoothLerp (shakeIntensity s) (targetShakeIntensity s) 0.1 dt;
       Some (dramaticIntensity,
             s \<lparr> smoothProgress := smoothed,
                 pulsePhase := pulse,
                 heartbeatIntensity := heartbeat,
                 shakeIntensity := shake,
                 targetShakeIntensity := targetShakeIntensity s * 0.98,
                 trace := trace s @
                   [starField_update time dt dramaticIntensity,
                    timeParticles_update time dt smoothed (phase s) dramaticIntensity
                      heartbeat (celebrationStartTime s),
                    burstSystem_update time,
                    shockwaveSystem_update time,
                    fireworkSystem_update time dt,
                    flashPlane_update time dramaticIntensity heartbeat] \<rparr>)
     }"

text \<open>The frame callback. The result is \<open>None\<close> when a number of the frame is not
  finite.\<close>

definition animate :: "Frame \<Rightarrow> Scene \<Rightarrow> Scene option" where
  "animate f s =
     (if isDisposed s then Some s
      else
        let s0 = s \<lparr> animationFrameId := Some (frame_handle f),
                     trace := trace s @ [requestAnimationFrame] \<rparr>;
            time = clock_elapsedTime f;
            dt = min (clock_delta f) 0.1
        in do {
          (dramaticIntensity, s1) \<leftarrow> updateSignals time dt s0;
          let s2 = spawnDuringCelebration time f s1;
          s3 \<leftarrow> updateCamera time dt dramaticIntensity (random_shake f) s2;
          s4 \<leftarrow> updateFOV dramaticIntensity (clock_delta_fov f) s3;
          Some (s4 \<lparr> trace := trace s4 @ [renderer_render] \<rparr>)
        })"

text \<open>\<open>dispose\<close>. The canvas is taken out of its parent node when it has one; the
  trace notes the step.\<close>

definition dispose :: "Scene \<Rightarrow> Scene" where
  "dispose s =
     s \<lparr> isDisposed := True,
         trace := trace s
           @ (case animationFrameId s of None \<Rightarrow> [] | Some h \<Rightarrow> [cancelAnimationFrame h])
           @ [removeEventListener_resize,
              starField_dispose, timeParticles_dispose, burstSystem_dispose,
              shockwaveSystem_dispose, fireworkSystem_dispose, flashPlane_dispose,
              renderer_dispose, removeChild_domElement,
              scene_traverse_dispose, scene_clear] \<rparr>"

text \<open>The callbacks that can still be pending when \<open>dispose\<close> is called: frames, and
  the timers of \<open>triggerCelebration\<close>.\<close>

datatype Callback = AnimationFrame Frame | CelebrationTimer real

fun run_callback :: "Scene \<Rightarrow> Callback \<Rightarrow> Scene option" where
  "run_callback s (AnimationFrame f) = animate f s"
| "run_callback s (CelebrationTimer time) = Some (celebrationSpawn time s)"

fun run_callbacks :: "Scene \<Rightarrow> Callback list \<Rightarrow> Scene option" where
  "run_callbacks s [] = Some s"
| "run_callbacks s (c # cs) =
     (case run_callback s c of None \<Rightarrow> None | Some s' \<Rightarrow> run_callbacks s' cs)"

text \<open>A run of \<open>updateProgress\<close> calls, each with its progress, its phase and the
  clock's reading.\<close>

definition updateProgress_run :: "(real \<times> Phase \<times> real) list \<Rightarrow> Scene \<Rightarrow> Scene" where
  "updateProgress_run calls s = foldl (\<lambda>s (p, ph, time). updateProgress p ph time s) s calls"

text \<open>How often the trace fires the burst, the shockwaves, the full flash.\<close>

definition burst_triggers :: "Call list \<Rightarrow> nat" where
  "burst_triggers cs = length (filter (\<lambda>c. case c of burstSystem_trigger _ \<Rightarrow> True | _ \<Rightarrow> False) cs)"

definition shockwave_triggers :: "Call list \<Rightarrow> nat" where
  "shockwave_triggers cs =
     length (filter (\<lambda>c. case c of shockwaveSystem_triggerClimax _ \<Rightarrow> True | _ \<Rightarrow> False) cs)"

definition flash_triggers :: "Call list \<Rightarrow> nat" where
  "flash_triggers cs =
     length (filter (\<lambda>c. case c of flashPlane_triggerFlash _ \<Rightarrow> True | _ \<Rightarrow> False) cs)"

definition timers_set :: "Call list \<Rightarrow> nat" where
  "timers_set cs = length (filter (\<lambda>c. case c of setTimeout _ \<Rightarrow> True | _ \<Rightarrow> False) cs)"

text \<open>The entries into a phase along a sequence of phases: the places where the phase
  is \<open>ph\<close> and the one before is not.\<close>

fun entries :: "Phase \<Rightarrow> Phase \<Rightarrow> Phase list \<Rightarrow> nat" where
  "entries ph previous [] = 0"
| "entries ph previous (x # xs) =
     (if x = ph \<and> previous \<noteq> ph then 1 else 0) + entries ph x xs"

text \<open>A frame for examples.\<close>

definition example_frame :: Frame where
  "example_frame =
     \<lparr> clock_elapsedTime = 1, clock_delta = 0.016, clock_delta_fov = 0, frame_handle = 7,
       random_fireworkInterval = 0.5, random_flash = 0.9, random_shake = (0.1, 0.2, 0.3) \<rparr>"

section \<open>The functions in double arithmetic\<close>

text \<open>
  The numbers of the program are IEEE doubles, and every arithmetic operation rounds its
  exact result to the nearest double, ties to the even significand. \<open>f64\<close> is that
  rounding for the normal range (no overflow, no subnormal numbers): a double with
  \<open>2 ^ e \<le> \<bar>x\<bar> < 2 ^ (e + 1)\<close> is a multiple of \<open>2 ^ (e - 52)\<close>, and a number \<open>x\<close>
  is a double when \<open>f64 x = x\<close>. The functions \<open>ease_*_f64\<close> and \<open>smoothLerp_f64\<close>
  are the easing functions and \<open>smoothLerp\<close> with every literal and every operation
  rounded, in the order in which JavaScript evaluates them; their arguments stand for
  doubles. \<open>Math.pow\<close> and \<open>Math.sin\<close> are taken as correctly rounded; ECMAScript asks
  for an approximation only. The powers with base 0 or 1, with exponent 0, and
  \<open>(-1)^3\<close> and \<open>(-1)^2\<close> are exact in every implementation.
\<close>

definition round_half_even :: "real \<Rightarrow> int" where
  "round_half_even r =
     (let n = \<lfloor>r\<rfloor>; d = r - of_int n
      in if d < 1/2 then n else if 1/2 < d then n + 1 else if even n then n else n + 1)"

definition f64 :: "real \<Rightarrow> real" where
  "f64 x =
     (if x = 0 then 0
      else let e = \<lfloor>log 2 \<bar>x\<bar>\<rfloor>; ulp = 2 powi (e - 52)
           in of_int (round_half_even (x / ulp)) * ulp)"

definition Math_pow_f64 :: "real \<Rightarrow> real \<Rightarrow> real option" where
  "Math_pow_f64 x y = map_option f64 (Math_pow x y)"

definition Math_sin_f64 :: "real \<Rightarrow> real" where
  "Math_sin_f64 x = f64 (sin x)"

definition ease_linear_f64 :: "real \<Rightarrow> real" where
  "ease_linear_f64 t = t"

definition ease_inQuad_f64 :: "real \<Rightarrow> real" where
  "ease_inQuad_f64 t = f64 (t * t)"

definition ease_outQuad_f64 :: "real \<Rightarrow> real" where
  "ease_outQuad_f64 t = f64 (t * f64 (2 - t))"

definition ease_inOutQuad_f64 :: "real \<Rightarrow> real" where
  "ease_inOutQuad_f64 t =
     (if t < f64 0.5 then f64 (f64 (2 * t) * t)
      else f64 (- 1 + f64 (f64 (4 - f64 (2 * t)) * t)))"

definition ease_inCubic_f64 :: "real \<Rightarrow> real" where
  "ease_inCubic_f64 t = f64 (f64 (t * t) * t)"

definition ease_outCubic_f64 :: "real \<Rightarrow> real" where
  "ease_outCubic_f64 t = (let t' = f64 (t - 1) in f64 (f64 (f64 (t' * t') * t') + 1))"

definition ease_inOutCubic_f64 :: "real \<Rightarrow> real" where
  "ease_inOutCubic_f64 t =
     (if t < f64 0.5 then f64 (f64 (f64 (4 * t) * t) * t)
      else f64 (f64 (f64 (f64 (t - 1) * f64 (f64 (2 * t) - 2)) * f64 (f64 (2 * t) - 2)) + 1))"

definition ease_outExpo_f64 :: "real \<Rightarrow> real option" where
  "ease_outExpo_f64 t =
     (if t = 1 then Some 1
      else map_option (\<lambda>p. f64 (1 - p)) (Math_pow_f64 2 (f64 (- 10 * t))))"

definition ease_inExpo_f64 :: "real \<Rightarrow> real option" where
  "ease_inExpo_f64 t = (if t = 0 then Some 0 else Math_pow_f64 2 (f64 (10 * f64 (t - 1))))"

definition ease_outBack_f64 :: "real \<Rightarrow> real option" where
  "ease_outBack_f64 t =
     (let c1 = f64 1.70158; c3 = f64 (c1 + 1) in
      do {
        p3 \<leftarrow> Math_pow_f64 (f64 (t - 1)) 3;
        p2 \<leftarrow> Math_pow_f64 (f64 (t - 1)) 2;
        Some (f64 (f64 (1 + f64 (c3 * p3)) + f64 (c1 * p2)))
      })"

definition ease_elastic_f64 :: "real \<Rightarrow> real option" where
  "ease_elastic_f64 t =
     (if t = 0 then Some 0
      else if t = 1 then Some 1
      else map_option
             (\<lambda>p. f64 (- p * Math_sin_f64
                     (f64 (f64 (f64 (t * 10) - f64 10.75) * f64 (f64 (2 * f64 pi) / 3)))))
             (Math_pow_f64 2 (f64 (f64 (10 * t) - 10))))"

definition ease_dramaticRamp_f64 :: "real \<Rightarrow> real option" where
  "ease_dramaticRamp_f64 t =
     (if t < f64 0.83 then Some (f64 (f64 (t / f64 0.83) * f64 0.3))
      else let normalized = f64 (f64 (t - f64 0.83) / f64 0.17) in
        map_option (\<lambda>p. f64 (f64 0.3 + f64 (p * f64 0.7))) (Math_pow_f64 normalized 2.5))"

definition ease_finalCountdown_f64 :: "real \<Rightarrow> real option" where
  "ease_finalCountdown_f64 t =
     (if t < f64 0.98 then ease_dramaticRamp_f64 t
      else let normalized = f64 (f64 (t - f64 0.98) / f64 0.02) in
        map_option (\<lambda>p. f64 (f64 0.9 + f64 (p * f64 0.1))) (Math_pow_f64 normalized 1.5))"

definition smoothLerp_f64 :: "real \<Rightarrow> real \<Rightarrow> real \<Rightarrow> real \<Rightarrow> real option" where
  "smoothLerp_f64 current target speed dt =
     map_option
       (\<lambda>p. let factor = f64 (1 - p)
            in f64 (current + f64 (f64 (target - current) * factor)))
       (Math_pow_f64 (f64 (1 - speed)) (f64 (dt * 60)))"

section \<open>Properties of the countdown state\<close>

lemmas PHASE_THRESHOLDS_defs =
  PHASE_THRESHOLDS_calm_def PHASE_THRESHOLDS_building_def PHASE_THRESHOLDS_intense_def
  PHASE_THRESHOLDS_final_def PHASE_THRESHOLDS_celebrationDelay_def

text \<open>
  Claim C2. \<open>calculatePhase\<close> is defined on every real \<open>remaining\<close> and reverses the
  order: of two values of \<open>remaining\<close>, the smaller one is classified at least as late
  in the order dormant, calm, building, intense, final, climax, celebration. It maps
  7,200,000 to dormant, 1,800,000 to calm, 300,000 to building, 30,000 to intense, 5,000
  to final, -2,000 to climax and -10,000 to celebration.
\<close>

theorem calculatePhase_order_reversing:
  "(\<forall>r1 r2. r1 < r2 \<longrightarrow> phase_rank (calculatePhase r2) \<le> phase_rank (calculatePhase r1))
   \<and> calculatePhase 7200000 = dormant
   \<and> calculatePhase 1800000 = calm
   \<and> calculatePhase 300000 = building
   \<and> calculatePhase 30000 = intense
   \<and> calculatePhase 5000 = final
   \<and> calculatePhase (- 2000) = climax
   \<and> calculatePhase (- 10000) = celebration"
  by (simp add: calculatePhase_def PHASE_THRESHOLDS_defs)

theorem calculatePhase_order_reversing_witness:
  "(5000 :: real) < 30000 \<and> phase_rank (calculatePhase 30000) \<le> phase_rank (calculatePhase 5000)"
proof
  show lt: "(5000 :: real) < 30000" by simp
  from calculatePhase_order_reversing
  have "\<forall>r1 r2. r1 < r2 \<longrightarrow> phase_rank (calculatePhase r2) \<le> phase_rank (calculatePhase r1)"
    by (rule conjunct1)
  with lt show "phase_rank (calculatePhase 30000) \<le> phase_rank (calculatePhase 5000)"
    by blast
qed

text \<open>
  Claim C3. For every target date and every reading of the clock, the progress that
  \<open>calculateState\<close> returns is \<open>clamp(1 - remaining / 3600000, 0, 1)\<close> with
  \<open>remaining = targetDate - now\<close>: it lies in \<open>[0, 1]\<close>, it is 0 when \<open>remaining\<close>
  is at least 3,600,000 ms, and 1 when \<open>remaining\<close> is at most 0.
\<close>

theorem calculateState_progress_clamped:
  "cs_progress (calculateState targetDate now) = clamp (1 - (targetDate - now) / 3600000) 0 1
   \<and> 0 \<le> cs_progress (calculateState targetDate now)
   \<and> cs_progress (calculateState targetDate now) \<le> 1
   \<and> (3600000 \<le> targetDate - now \<longrightarrow> cs_progress (calculateState targetDate now) = 0)
   \<and> (targetDate - now \<le> 0 \<longrightarrow> cs_progress (calculateState targetDate now) = 1)"
  by (auto simp: calculateState_def clamp_def Let_def)

theorem calculateState_progress_clamped_witness:
  "cs_progress (calculateState 7200000 0) = 0 \<and> cs_progress (calculateState 0 1000) = 1"
proof
  from calculateState_progress_clamped [of 7200000 0]
  have "(3600000 :: real) \<le> 7200000 - 0 \<longrightarrow> cs_progress (calculateState 7200000 0) = 0"
    by blast
  then show "cs_progress (calculateState 7200000 0) = 0" by simp
  from calculateState_progress_clamped [of 0 1000]
  have "(0 :: real) - 1000 \<le> 0 \<longrightarrow> cs_progress (calculateState 0 1000) = 1"
    by blast
  then show "cs_progress (calculateState 0 1000) = 1" by simp
qed

section \<open>Properties of the easing functions\<close>

text \<open>
  In exact real arithmetic every easing function of the collection returns 0 at
  \<open>t = 0\<close> and 1 at \<open>t = 1\<close>.
\<close>

lemma ease_boundary_values_real:
  "ease_linear 0 = 0 \<and> ease_linear 1 = 1
   \<and> ease_inQuad 0 = 0 \<and> ease_inQuad 1 = 1
   \<and> ease_outQuad 0 = 0 \<and> ease_outQuad 1 = 1
   \<and> ease_inOutQuad 0 = 0 \<and> ease_inOutQuad 1 = 1
   \<and> ease_inCubic 0 = 0 \<and> ease_inCubic 1 = 1
   \<and> ease_outCubic 0 = 0 \<and> ease_outCubic 1 = 1
   \<and> ease_inOutCubic 0 = 0 \<and> ease_inOutCubic 1 = 1
   \<and> ease_outExpo 0 = Some 0 \<and> ease_outExpo 1 = Some 1
   \<and> ease_inExpo 0 = Some 0 \<and> ease_inExpo 1 = Some 1
   \<and> ease_outBack 0 = Some 0 \<and> ease_outBack 1 = Some 1
   \<and> ease_elastic 0 = Some 0 \<and> ease_elastic 1 = Some 1
   \<and> ease_dramaticRamp 0 = Some 0 \<and> ease_dramaticRamp 1 = Some 1
   \<and> ease_finalCountdown 0 = Some 0 \<and> ease_finalCountdown 1 = Some 1"
  by (simp add: ease_linear_def ease_inQuad_def ease_outQuad_def ease_inOutQuad_def
      ease_inCubic_def ease_outCubic_def ease_inOutCubic_def ease_outExpo_def ease_inExpo_def
      ease_outBack_def ease_elastic_def ease_dramaticRamp_def ease_finalCountdown_def
      Math_pow_def)

text \<open>The rounding of a number whose binade is known.\<close>

lemma f64_binade:
  assumes "2 powi e \<le> \<bar>x\<bar>" "\<bar>x\<bar> < 2 powi (e + 1)"
  shows "f64 x = of_int (round_half_even (x / 2 powi (e - 52))) * 2 powi (e - 52)"
proof -
  have "(0::real) < 2 powi e" by simp
  with assms(1) have pos: "0 < \<bar>x\<bar>" by linarith
  have lo: "(2::real) powr real_of_int e = 2 powi e"
    by (simp add: powr_real_of_int')
  have hi: "(2::real) powr real_of_int (e + 1) = 2 powi (e + 1)"
    using powr_real_of_int' [of 2 "e + 1"] by simp
  have "\<lfloor>log 2 \<bar>x\<bar>\<rfloor> = e"
    using assms floor_log_eq_powr_iff [OF pos, of 2 e] lo hi by simp
  moreover have "x \<noteq> 0" using pos by auto
  ultimately show ?thesis by (simp add: f64_def Let_def)
qed

text \<open>The steps of \<open>ease.outBack(0)\<close>: the literal \<open>1.70158\<close>, \<open>c1 + 1\<close>,
  \<open>t - 1\<close>, the two powers, the two products and the two sums.\<close>

lemma f64_c1: "f64 1.70158 = 7663235053941089 / 2 ^ 52"
  by (subst f64_binade [where e = 0]) (simp_all add: round_half_even_def power_int_minus)

lemma f64_c3: "f64 (7663235053941089 / 2 ^ 52 + 1) = 6083417340655792 / 2 ^ 51"
  by (subst f64_binade [where e = 1]) (simp_all add: round_half_even_def power_int_minus)

lemma f64_zero_minus_one: "f64 (0 - 1) = - 1"
  by (subst f64_binade [where e = 0]) (simp_all add: round_half_even_def power_int_minus)

lemma f64_minus_one: "f64 (- 1) = - 1"
  by (subst f64_binade [where e = 0]) (simp_all add: round_half_even_def power_int_minus)

lemma f64_one: "f64 1 = 1"
  by (subst f64_binade [where e = 0]) (simp_all add: round_half_even_def power_int_minus)

lemma Math_pow_f64_cube: "Math_pow_f64 (- 1) 3 = Some (- 1)"
  by (simp add: Math_pow_f64_def Math_pow_def f64_minus_one)

lemma Math_pow_f64_square: "Math_pow_f64 (- 1) 2 = Some 1"
  by (simp add: Math_pow_f64_def Math_pow_def f64_one)

lemma f64_c3_times: "f64 (6083417340655792 / 2 ^ 51 * - 1) = - (6083417340655792 / 2 ^ 51)"
  by (subst f64_binade [where e = 1]) (simp_all add: round_half_even_def power_int_minus)

lemma f64_one_minus_c3: "f64 (1 + - (6083417340655792 / 2 ^ 51)) = - (7663235053941088 / 2 ^ 52)"
  by (subst f64_binade [where e = 0]) (simp_all add: round_half_even_def power_int_minus)

lemma f64_c1_times: "f64 (7663235053941089 / 2 ^ 52 * 1) = 7663235053941089 / 2 ^ 52"
  by (subst f64_binade [where e = 0]) (simp_all add: round_half_even_def power_int_minus)

lemma f64_last_sum:
  "f64 (- (7663235053941088 / 2 ^ 52) + 7663235053941089 / 2 ^ 52) = 1 / 2 ^ 52"
  by (subst f64_binade [where e = "- 52"]) (simp_all add: round_half_even_def power_int_minus)

lemma ease_outBack_f64_at_0: "ease_outBack_f64 0 = Some (1 / 2 ^ 52)"
  unfolding ease_outBack_f64_def Let_def f64_c1 f64_c3 f64_zero_minus_one
    Math_pow_f64_cube Math_pow_f64_square bind.bind_lunit
    f64_c3_times f64_one_minus_c3 f64_c1_times f64_last_sum
  by (rule refl)

text \<open>Rounding to a double: the result is the nearest multiple of the unit of the binade,
  exact on the doubles, within a relative error of \<open>2 ^ - 53\<close>, and monotone at 0 and 1.\<close>

lemma round_half_even_near:
  assumes "\<bar>r - of_int n\<bar> < 1/2"
  shows "round_half_even r = n"
proof (cases "of_int n \<le> r")
  case True
  with assms have fl: "\<lfloor>r\<rfloor> = n" by (intro floor_unique) (auto simp: abs_if split: if_splits)
  from True assms have "r - of_int n < 1/2" by (simp add: abs_if)
  then show ?thesis by (simp add: round_half_even_def Let_def fl)
next
  case False
  with assms have fl: "\<lfloor>r\<rfloor> = n - 1" by (intro floor_unique) (auto simp: abs_if split: if_splits)
  from False assms have "1/2 < r - of_int (n - 1)" by (simp add: abs_if)
  then show ?thesis by (simp add: round_half_even_def Let_def fl)
qed

lemma round_half_even_error: "\<bar>of_int (round_half_even r) - r\<bar> \<le> 1/2"
proof -
  define n where "n = \<lfloor>r\<rfloor>"
  have n: "of_int n \<le> r" "r < of_int n + 1" unfolding n_def by linarith+
  consider "r - of_int n < 1/2" | "1/2 < r - of_int n" | "r - of_int n = 1/2" by linarith
  then show ?thesis
  proof cases
    case 1
    then have "round_half_even r = n" by (simp add: round_half_even_def Let_def n_def)
    with 1 n show ?thesis by simp
  next
    case 2
    then have "round_half_even r = n + 1" by (simp add: round_half_even_def Let_def n_def)
    with 2 n show ?thesis by simp
  next
    case 3
    then have "round_half_even r = n \<or> round_half_even r = n + 1"
      by (simp add: round_half_even_def Let_def n_def)
    with 3 show ?thesis by auto
  qed
qed

lemma round_half_even_int: "round_half_even (of_int n) = n"
  by (rule round_half_even_near) simp

lemma round_half_even_ge_floor: "\<lfloor>r\<rfloor> \<le> round_half_even r"
  by (simp add: round_half_even_def Let_def)

lemma round_half_even_le: "r \<le> of_int n \<Longrightarrow> round_half_even r \<le> n"
proof -
  assume le: "r \<le> of_int n"
  show ?thesis
  proof (cases "r = of_int n")
    case True
    then show ?thesis by (simp add: round_half_even_int)
  next
    case False
    with le have "r < of_int n" by simp
    then have "\<lfloor>r\<rfloor> < n" by (simp add: floor_less_iff)
    then show ?thesis by (simp add: round_half_even_def Let_def)
  qed
qed

lemma binade_exists:
  fixes x :: real
  assumes "x \<noteq> 0"
  shows "\<exists>e. 2 powi e \<le> \<bar>x\<bar> \<and> \<bar>x\<bar> < 2 powi (e + 1)"
proof -
  define e where "e = \<lfloor>log 2 \<bar>x\<bar>\<rfloor>"
  have pos: "0 < \<bar>x\<bar>" using assms by simp
  have lo: "(2::real) powr real_of_int e = 2 powi e"
    by (simp add: powr_real_of_int')
  have hi: "(2::real) powr real_of_int (e + 1) = 2 powi (e + 1)"
    using powr_real_of_int' [of 2 "e + 1"] by simp
  have "2 powr real_of_int e \<le> \<bar>x\<bar> \<and> \<bar>x\<bar> < 2 powr real_of_int (e + 1)"
    using floor_log_eq_powr_iff [OF pos, of 2 e] e_def by simp
  then show ?thesis unfolding lo hi by blast
qed

lemma f64_near:
  assumes "2 powi e \<le> \<bar>x\<bar>" "\<bar>x\<bar> < 2 powi (e + 1)"
    "\<bar>x / 2 powi (e - 52) - of_int n\<bar> < 1/2"
  shows "f64 x = of_int n * 2 powi (e - 52)"
  by (simp add: f64_binade [OF assms(1,2)] round_half_even_near [OF assms(3)])

lemma f64_exact:
  assumes "2 powi e \<le> \<bar>x\<bar>" "\<bar>x\<bar> < 2 powi (e + 1)" "x = of_int n * 2 powi (e - 52)"
  shows "f64 x = x"
proof -
  have "x / 2 powi (e - 52) = of_int n" by (simp add: assms(3))
  then have "f64 x = of_int n * 2 powi (e - 52)"
    by (intro f64_near [OF assms(1,2)]) simp
  then show ?thesis by (simp add: assms(3))
qed

lemma f64_error: "\<bar>f64 z - z\<bar> \<le> \<bar>z\<bar> / 2 ^ 53"
proof (cases "z = 0")
  case True
  then show ?thesis by (simp add: f64_def)
next
  case False
  then obtain e where e: "2 powi e \<le> \<bar>z\<bar>" "\<bar>z\<bar> < 2 powi (e + 1)"
    using binade_exists by blast
  define ulp :: real where "ulp = 2 powi (e - 52)"
  have ulp: "0 < ulp" by (simp add: ulp_def)
  have half: "ulp / 2 = 2 powi e / 2 ^ 53"
    by (simp add: ulp_def power_int_diff)
  have "f64 z - z = (of_int (round_half_even (z / ulp)) - z / ulp) * ulp"
    using ulp by (simp add: f64_binade [OF e] ulp_def [symmetric] algebra_simps)
  then have "\<bar>f64 z - z\<bar> = \<bar>of_int (round_half_even (z / ulp)) - z / ulp\<bar> * ulp"
    using ulp by (simp add: abs_mult)
  also have "\<dots> \<le> 1/2 * ulp"
    using ulp round_half_even_error [of "z / ulp"] by (intro mult_right_mono) simp_all
  also have "\<dots> = 2 powi e / 2 ^ 53" using half by simp
  also have "\<dots> \<le> \<bar>z\<bar> / 2 ^ 53" using e(1) by (simp add: divide_right_mono)
  finally show ?thesis .
qed

lemma f64_nonneg: "0 \<le> z \<Longrightarrow> 0 \<le> f64 z"
proof -
  assume z: "0 \<le> z"
  have "\<bar>f64 z - z\<bar> \<le> \<bar>z\<bar> / 2 ^ 53" by (rule f64_error)
  moreover have "\<bar>z\<bar> / 2 ^ 53 \<le> \<bar>z\<bar>" by (simp add: divide_le_eq)
  ultimately show ?thesis using z by (simp add: abs_if split: if_splits)
qed

lemma f64_pos: "0 < z \<Longrightarrow> 0 < f64 z"
proof -
  assume z: "0 < z"
  have "\<bar>f64 z - z\<bar> \<le> \<bar>z\<bar> / 2 ^ 53" by (rule f64_error)
  moreover have "\<bar>z\<bar> / 2 ^ 53 < \<bar>z\<bar>" using z by (simp add: divide_less_eq)
  ultimately show ?thesis using z by (simp add: abs_if split: if_splits)
qed

lemma f64_le_one:
  assumes "0 \<le> z" "z \<le> 1"
  shows "f64 z \<le> 1"
proof (cases "z = 0 \<or> z = 1")
  case True
  then show ?thesis
  proof
    assume "z = 0"
    then show ?thesis by (simp add: f64_def)
  next
    assume "z = 1"
    then show ?thesis by (simp add: f64_one)
  qed
next
  case False
  with assms have z: "0 < z" "z < 1" by auto
  then obtain e where e: "2 powi e \<le> \<bar>z\<bar>" "\<bar>z\<bar> < 2 powi (e + 1)"
    using binade_exists [of z] by auto
  have small: "(2::real) powi e < 1" using e(1) z by simp
  have "e < 0"
  proof (rule ccontr)
    assume "\<not> e < 0"
    then have "(2::real) powi 0 \<le> 2 powi e" by (intro power_int_increasing) simp_all
    with small show False by simp
  qed
  then have e1: "e + 1 \<le> 0" by simp
  define ulp :: real where "ulp = 2 powi (e - 52)"
  have ulp: "0 < ulp" by (simp add: ulp_def)
  have top: "2 ^ 53 * ulp = 2 powi (e + 1)"
    by (simp add: ulp_def power_int_diff power_int_add)
  have "z / ulp \<le> 2 ^ 53"
    using e(2) z ulp top by (simp add: divide_le_eq)
  then have "z / ulp \<le> of_int (2 ^ 53)" by simp
  then have "round_half_even (z / ulp) \<le> 2 ^ 53" by (rule round_half_even_le)
  then have "(of_int (round_half_even (z / ulp)) :: real) \<le> of_int (2 ^ 53)"
    by (simp only: of_int_le_iff)
  then have "(of_int (round_half_even (z / ulp)) :: real) \<le> 2 ^ 53"
    by simp
  then have "f64 z \<le> 2 ^ 53 * ulp"
    using ulp by (simp add: f64_binade [OF e] ulp_def [symmetric])
  also have "\<dots> = 2 powi (e + 1)" by (rule top)
  also have "\<dots> \<le> 2 powi 0" using e1 by (intro power_int_increasing) simp_all
  finally show ?thesis by simp
qed

text \<open>The boundary values of the easing functions in double arithmetic.\<close>

lemma f64_0: "f64 0 = 0"
  by (simp add: f64_def)

lemma f64_2: "f64 2 = 2"
  by (rule f64_exact [where e = 1 and n = "2 ^ 52"]) (simp_all add: power_int_minus)

lemma f64_half: "f64 (1/2) = 1/2"
  by (rule f64_exact [where e = "- 1" and n = "2 ^ 52"]) (simp_all add: power_int_minus)

lemma ease_simple_f64:
  "ease_linear_f64 0 = 0" "ease_linear_f64 1 = 1"
  "ease_inQuad_f64 0 = 0" "ease_inQuad_f64 1 = 1"
  "ease_outQuad_f64 0 = 0" "ease_outQuad_f64 1 = 1"
  "ease_inOutQuad_f64 0 = 0" "ease_inOutQuad_f64 1 = 1"
  "ease_inCubic_f64 0 = 0" "ease_inCubic_f64 1 = 1"
  "ease_outCubic_f64 0 = 0" "ease_outCubic_f64 1 = 1"
  "ease_inOutCubic_f64 0 = 0" "ease_inOutCubic_f64 1 = 1"
  by (simp_all add: ease_linear_f64_def ease_inQuad_f64_def ease_outQuad_f64_def
      ease_inOutQuad_f64_def ease_inCubic_f64_def ease_outCubic_f64_def ease_inOutCubic_f64_def
      f64_0 f64_one f64_2 f64_half f64_minus_one)

lemma ease_expo_f64:
  "ease_outExpo_f64 0 = Some 0" "ease_outExpo_f64 1 = Some 1"
  "ease_inExpo_f64 0 = Some 0" "ease_inExpo_f64 1 = Some 1"
  "ease_elastic_f64 0 = Some 0" "ease_elastic_f64 1 = Some 1"
  by (simp_all add: ease_outExpo_f64_def ease_inExpo_f64_def ease_elastic_f64_def
      Math_pow_f64_def Math_pow_def f64_0 f64_one)

lemma ease_outBack_f64_at_1: "ease_outBack_f64 1 = Some 1"
  by (simp add: ease_outBack_f64_def Math_pow_f64_def Math_pow_def f64_0 f64_one Let_def)

text \<open>
  \<open>ease.dramaticRamp(1)\<close>: \<open>1 - 0.83\<close> is one unit above the double \<open>0.17\<close>, so
  \<open>normalized\<close> is \<open>1 + 2 ^ - 52\<close>, its power \<open>2.5\<close> rounds to \<open>1 + 3 * 2 ^ - 52\<close>, and
  the sum is \<open>1 + 2 ^ - 51\<close>. \<open>ease.finalCountdown(1)\<close>: \<open>normalized\<close> is
  \<open>1 + 4 * 2 ^ - 52\<close>, its power \<open>1.5\<close> rounds to \<open>1 + 6 * 2 ^ - 52\<close>, and the sum is
  \<open>1 + 2 ^ - 52\<close>.
\<close>

lemma powr_five_halves: "0 < x \<Longrightarrow> x powr 2.5 = x ^ 2 * sqrt x"
proof -
  assume x: "0 < x"
  have "(2.5::real) = 2 + 1/2" by simp
  then have "x powr 2.5 = x powr (2 + 1/2)" by (simp only:)
  also have "\<dots> = x powr 2 * x powr (1/2)" by (rule powr_add)
  also have "x powr 2 = x ^ 2" using x by simp
  also have "x powr (1/2) = sqrt x" using x by (simp add: powr_half_sqrt)
  finally show ?thesis .
qed

lemma powr_three_halves: "0 < x \<Longrightarrow> x powr 1.5 = x * sqrt x"
proof -
  assume x: "0 < x"
  have "(1.5::real) = 1 + 1/2" by simp
  then have "x powr 1.5 = x powr (1 + 1/2)" by (simp only:)
  also have "\<dots> = x powr 1 * x powr (1/2)" by (rule powr_add)
  also have "x powr 1 = x" using x by simp
  also have "x powr (1/2) = sqrt x" using x by (simp add: powr_half_sqrt)
  finally show ?thesis .
qed

lemma sqrt_one_u:
  "1 + 1 / 2 ^ 53 - 1 / 2 ^ 107 \<le> sqrt (4503599627370497 / 2 ^ 52)"
  "sqrt (4503599627370497 / 2 ^ 52) \<le> 1 + 1 / 2 ^ 53"
proof -
  show "1 + 1 / 2 ^ 53 - 1 / 2 ^ 107 \<le> sqrt (4503599627370497 / 2 ^ 52)"
    by (rule real_le_rsqrt) (simp add: power2_eq_square)
  show "sqrt (4503599627370497 / 2 ^ 52) \<le> 1 + 1 / 2 ^ 53"
    by (rule real_le_lsqrt) (simp_all add: power2_eq_square)
qed

lemma pow_ramp_round:
  "f64 ((4503599627370497 / 2 ^ 52) powr 2.5) = 4503599627370499 / 2 ^ 52"
proof -
  let ?x = "4503599627370497 / 2 ^ 52 :: real"
  let ?z = "?x ^ 2 * sqrt ?x"
  have z: "?x powr 2.5 = ?z" by (rule powr_five_halves) simp
  have "?x ^ 2 * (1 + 1 / 2 ^ 53 - 1 / 2 ^ 107) \<le> ?z"
    by (intro mult_left_mono sqrt_one_u) simp
  moreover have "(4503599627370499 - 1/2) / 2 ^ 52 < ?x ^ 2 * (1 + 1 / 2 ^ 53 - 1 / 2 ^ 107)"
    by (simp add: power2_eq_square)
  ultimately have lo: "(4503599627370499 - 1/2) / 2 ^ 52 < ?z" by linarith
  have "?z \<le> ?x ^ 2 * (1 + 1 / 2 ^ 53)"
    by (intro mult_left_mono sqrt_one_u) simp
  moreover have "?x ^ 2 * (1 + 1 / 2 ^ 53) < (4503599627370499 + 1/2) / 2 ^ 52"
    by (simp add: power2_eq_square)
  ultimately have hi: "?z < (4503599627370499 + 1/2) / 2 ^ 52" by linarith
  have near: "\<bar>?z / 2 powi (0 - 52) - of_int 4503599627370499\<bar> < 1/2"
    using lo hi by (simp add: power_int_minus abs_if field_simps)
  have b1: "2 powi 0 \<le> \<bar>?z\<bar>" using lo by (simp add: abs_if)
  have b2: "\<bar>?z\<bar> < 2 powi (0 + 1)" using hi lo by (simp add: abs_if)
  have "f64 ?z = of_int 4503599627370499 * 2 powi (0 - 52)"
    by (rule f64_near [OF b1 b2 near])
  then show ?thesis unfolding z by (simp add: power_int_minus)
qed

lemma sqrt_one_4u:
  "1 + 2 / 2 ^ 52 - 2 / 2 ^ 104 \<le> sqrt (4503599627370500 / 2 ^ 52)"
  "sqrt (4503599627370500 / 2 ^ 52) \<le> 1 + 2 / 2 ^ 52"
proof -
  show "1 + 2 / 2 ^ 52 - 2 / 2 ^ 104 \<le> sqrt (4503599627370500 / 2 ^ 52)"
    by (rule real_le_rsqrt) (simp add: power2_eq_square)
  show "sqrt (4503599627370500 / 2 ^ 52) \<le> 1 + 2 / 2 ^ 52"
    by (rule real_le_lsqrt) (simp_all add: power2_eq_square)
qed

lemma pow_final_round:
  "f64 ((4503599627370500 / 2 ^ 52) powr 1.5) = 4503599627370502 / 2 ^ 52"
proof -
  let ?x = "4503599627370500 / 2 ^ 52 :: real"
  let ?z = "?x * sqrt ?x"
  have z: "?x powr 1.5 = ?z" by (rule powr_three_halves) simp
  have "?x * (1 + 2 / 2 ^ 52 - 2 / 2 ^ 104) \<le> ?z"
    by (intro mult_left_mono sqrt_one_4u) simp
  moreover have "(4503599627370502 - 1/2) / 2 ^ 52 < ?x * (1 + 2 / 2 ^ 52 - 2 / 2 ^ 104)"
    by simp
  ultimately have lo: "(4503599627370502 - 1/2) / 2 ^ 52 < ?z" by linarith
  have "?z \<le> ?x * (1 + 2 / 2 ^ 52)"
    by (intro mult_left_mono sqrt_one_4u) simp
  moreover have "?x * (1 + 2 / 2 ^ 52) < (4503599627370502 + 1/2) / 2 ^ 52"
    by simp
  ultimately have hi: "?z < (4503599627370502 + 1/2) / 2 ^ 52" by linarith
  have near: "\<bar>?z / 2 powi (0 - 52) - of_int 4503599627370502\<bar> < 1/2"
    using lo hi by (simp add: power_int_minus abs_if field_simps)
  have b1: "2 powi 0 \<le> \<bar>?z\<bar>" using lo by (simp add: abs_if)
  have b2: "\<bar>?z\<bar> < 2 powi (0 + 1)" using hi lo by (simp add: abs_if)
  have "f64 ?z = of_int 4503599627370502 * 2 powi (0 - 52)"
    by (rule f64_near [OF b1 b2 near])
  then show ?thesis unfolding z by (simp add: power_int_minus)
qed

lemma f64_083: "f64 0.83 = 7475975381435023 / 2 ^ 53"
  by (subst f64_binade [where e = "- 1"]) (simp_all add: round_half_even_def power_int_minus)

lemma f64_017: "f64 0.17 = 6124895493223875 / 2 ^ 55"
  by (subst f64_binade [where e = "- 3"]) (simp_all add: round_half_even_def power_int_minus)

lemma f64_03: "f64 0.3 = 5404319552844595 / 2 ^ 54"
  by (subst f64_binade [where e = "- 2"]) (simp_all add: round_half_even_def power_int_minus)

lemma f64_07: "f64 0.7 = 6305039478318694 / 2 ^ 53"
  by (subst f64_binade [where e = "- 1"]) (simp_all add: round_half_even_def power_int_minus)

lemma f64_098: "f64 0.98 = 8827055269646172 / 2 ^ 53"
  by (subst f64_binade [where e = "- 1"]) (simp_all add: round_half_even_def power_int_minus)

lemma f64_002: "f64 0.02 = 5764607523034235 / 2 ^ 58"
  by (subst f64_binade [where e = "- 6"]) (simp_all add: round_half_even_def power_int_minus)

lemma f64_09: "f64 0.9 = 8106479329266893 / 2 ^ 53"
  by (subst f64_binade [where e = "- 1"]) (simp_all add: round_half_even_def power_int_minus)

lemma f64_01: "f64 0.1 = 7205759403792794 / 2 ^ 56"
  by (subst f64_binade [where e = "- 4"]) (simp_all add: round_half_even_def power_int_minus)

lemma ramp_sub: "f64 (1 - 7475975381435023 / 2 ^ 53) = 6124895493223876 / 2 ^ 55"
  by (subst f64_binade [where e = "- 3"]) (simp_all add: round_half_even_def power_int_minus)

lemma ramp_div:
  "f64 (6124895493223876 / 2 ^ 55 / (6124895493223875 / 2 ^ 55)) = 4503599627370497 / 2 ^ 52"
  by (subst f64_binade [where e = 0]) (simp_all add: round_half_even_def power_int_minus)

lemma ramp_pow:
  "Math_pow_f64 (4503599627370497 / 2 ^ 52) 2.5 = Some (4503599627370499 / 2 ^ 52)"
  by (simp add: Math_pow_f64_def Math_pow_def pow_ramp_round [simplified])

lemma ramp_mul:
  "f64 (4503599627370499 / 2 ^ 52 * (6305039478318694 / 2 ^ 53)) = 6305039478318698 / 2 ^ 53"
  by (subst f64_binade [where e = "- 1"]) (simp_all add: round_half_even_def power_int_minus)

lemma ramp_add:
  "f64 (5404319552844595 / 2 ^ 54 + 6305039478318698 / 2 ^ 53) = 4503599627370498 / 2 ^ 52"
  by (subst f64_binade [where e = 0]) (simp_all add: round_half_even_def power_int_minus)

lemma ease_dramaticRamp_f64_at_0: "ease_dramaticRamp_f64 0 = Some 0"
proof -
  have g: "(0::real) < f64 0.83" unfolding f64_083 by simp
  show ?thesis unfolding ease_dramaticRamp_f64_def if_P [OF g] by (simp add: f64_0)
qed

lemma ease_dramaticRamp_f64_at_1:
  "ease_dramaticRamp_f64 1 = Some (4503599627370498 / 2 ^ 52)"
proof -
  have g: "\<not> (1::real) < 7475975381435023 / 2 ^ 53" by simp
  show ?thesis
    unfolding ease_dramaticRamp_f64_def Let_def f64_083 f64_017 f64_03 f64_07
      if_not_P [OF g] ramp_sub ramp_div ramp_pow option.map ramp_mul ramp_add
    by (rule refl)
qed

lemma final_sub: "f64 (1 - 8827055269646172 / 2 ^ 53) = 5764607523034240 / 2 ^ 58"
  by (subst f64_binade [where e = "- 6"]) (simp_all add: round_half_even_def power_int_minus)

lemma final_div:
  "f64 (5764607523034240 / 2 ^ 58 / (5764607523034235 / 2 ^ 58)) = 4503599627370500 / 2 ^ 52"
  by (subst f64_binade [where e = 0]) (simp_all add: round_half_even_def power_int_minus)

lemma final_pow:
  "Math_pow_f64 (4503599627370500 / 2 ^ 52) 1.5 = Some (4503599627370502 / 2 ^ 52)"
  by (simp add: Math_pow_f64_def Math_pow_def pow_final_round [simplified])

lemma final_mul:
  "f64 (4503599627370502 / 2 ^ 52 * (7205759403792794 / 2 ^ 56)) = 7205759403792804 / 2 ^ 56"
  by (subst f64_binade [where e = "- 4"]) (simp_all add: round_half_even_def power_int_minus)

lemma final_add:
  "f64 (8106479329266893 / 2 ^ 53 + 7205759403792804 / 2 ^ 56) = 4503599627370497 / 2 ^ 52"
  by (subst f64_binade [where e = 0]) (simp_all add: round_half_even_def power_int_minus)

lemma ease_finalCountdown_f64_at_0: "ease_finalCountdown_f64 0 = Some 0"
proof -
  have g: "(0::real) < f64 0.98" unfolding f64_098 by simp
  show ?thesis unfolding ease_finalCountdown_f64_def if_P [OF g]
    by (rule ease_dramaticRamp_f64_at_0)
qed

lemma ease_finalCountdown_f64_at_1:
  "ease_finalCountdown_f64 1 = Some (4503599627370497 / 2 ^ 52)"
proof -
  have g: "\<not> (1::real) < 8827055269646172 / 2 ^ 53" by simp
  show ?thesis
    unfolding ease_finalCountdown_f64_def Let_def f64_098 f64_002 f64_09 f64_01
      if_not_P [OF g] final_sub final_div final_pow option.map final_mul final_add
    by (rule refl)
qed

text \<open>
  Claim C4 as stated fails on the doubles the code computes with: \<open>ease.outBack(0)\<close> is
  \<open>2 ^ - 52\<close>, not 0, since \<open>c1 + 1\<close> is rounded.
\<close>

theorem outBack_boundary_rounding:
  "ease_outBack_f64 0 = Some (1 / 2 ^ 52) \<and> ease_outBack_f64 0 \<noteq> Some 0"
  by (simp add: ease_outBack_f64_at_0)

text \<open>
  Claim C4, amended. In double arithmetic every easing function of the collection
  returns exactly 0 at \<open>t = 0\<close> and exactly 1 at \<open>t = 1\<close>, with three exceptions, which
  miss the boundary value by at most \<open>2 ^ - 51\<close>: \<open>ease.outBack(0)\<close> is \<open>2 ^ - 52\<close>,
  \<open>ease.dramaticRamp(1)\<close> is \<open>1 + 2 ^ - 51\<close> and \<open>ease.finalCountdown(1)\<close> is
  \<open>1 + 2 ^ - 52\<close>.
\<close>

theorem ease_boundary_values_f64:
  "ease_linear_f64 0 = 0 \<and> ease_linear_f64 1 = 1
   \<and> ease_inQuad_f64 0 = 0 \<and> ease_inQuad_f64 1 = 1
   \<and> ease_outQuad_f64 0 = 0 \<and> ease_outQuad_f64 1 = 1
   \<and> ease_inOutQuad_f64 0 = 0 \<and> ease_inOutQuad_f64 1 = 1
   \<and> ease_inCubic_f64 0 = 0 \<and> ease_inCubic_f64 1 = 1
   \<and> ease_outCubic_f64 0 = 0 \<and> ease_outCubic_f64 1 = 1
   \<and> ease_inOutCubic_f64 0 = 0 \<and> ease_inOutCubic_f64 1 = 1
   \<and> ease_outExpo_f64 0 = Some 0 \<and> ease_outExpo_f64 1 = Some 1
   \<and> ease_inExpo_f64 0 = Some 0 \<and> ease_inExpo_f64 1 = Some 1
   \<and> ease_outBack_f64 0 = Some (1 / 2 ^ 52) \<and> ease_outBack_f64 1 = Some 1
   \<and> ease_elastic_f64 0 = Some 0 \<and> ease_elastic_f64 1 = Some 1
   \<and> ease_dramaticRamp_f64 0 = Some 0 \<and> ease_dramaticRamp_f64 1 = Some (1 + 2 / 2 ^ 52)
   \<and> ease_finalCountdown_f64 0 = Some 0 \<and> ease_finalCountdown_f64 1 = Some (1 + 1 / 2 ^ 52)"
proof -
  have ramp: "ease_dramaticRamp_f64 1 = Some (1 + 2 / 2 ^ 52)"
    unfolding ease_dramaticRamp_f64_at_1 by simp
  have final: "ease_finalCountdown_f64 1 = Some (1 + 1 / 2 ^ 52)"
    unfolding ease_finalCountdown_f64_at_1 by simp
  show ?thesis
    by (intro conjI ease_simple_f64 ease_expo_f64 ease_outBack_f64_at_0 ease_outBack_f64_at_1
        ease_dramaticRamp_f64_at_0 ease_finalCountdown_f64_at_0 ramp final)
qed

text \<open>
  Claim C5. For every \<open>t < 0.98\<close>, \<open>finalCountdown(t)\<close> is \<open>dramaticRamp(t)\<close>;
  \<open>finalCountdown(0.98)\<close> is within 0.1 of 0.9; and \<open>finalCountdown(0.99)\<close> is greater
  than \<open>finalCountdown(0.98)\<close>.
\<close>

theorem finalCountdown_kick:
  "(\<forall>t. t < 0.98 \<longrightarrow> ease_finalCountdown t = ease_dramaticRamp t)
   \<and> (\<exists>a b. ease_finalCountdown 0.98 = Some a \<and> \<bar>a - 0.9\<bar> \<le> 0.1
          \<and> ease_finalCountdown 0.99 = Some b \<and> a < b)"
proof -
  have a: "ease_finalCountdown 0.98 = Some 0.9"
    by (simp add: ease_finalCountdown_def Math_pow_def)
  have b: "ease_finalCountdown 0.99 = Some (0.9 + (1/2) powr 1.5 * 0.1)"
    by (simp add: ease_finalCountdown_def Math_pow_def)
  have "(0::real) < (1/2) powr 1.5" by simp
  then have lt: "(0.9::real) < 0.9 + (1/2) powr 1.5 * 0.1" by simp
  have near: "\<bar>(0.9::real) - 0.9\<bar> \<le> 0.1" by simp
  have same: "\<forall>t. t < 0.98 \<longrightarrow> ease_finalCountdown t = ease_dramaticRamp t"
    by (simp add: ease_finalCountdown_def)
  from a b lt near same show ?thesis by blast
qed

theorem finalCountdown_kick_witness:
  "(0.5 :: real) < 0.98 \<and> ease_finalCountdown 0.5 = ease_dramaticRamp 0.5"
proof
  show lt: "(0.5 :: real) < 0.98" by simp
  from finalCountdown_kick
  have "\<forall>t. t < 0.98 \<longrightarrow> ease_finalCountdown t = ease_dramaticRamp t"
    by (rule conjunct1)
  with lt show "ease_finalCountdown 0.5 = ease_dramaticRamp 0.5" by blast
qed

section \<open>Properties of smoothLerp\<close>

lemma Math_pow_unit_interval:
  assumes "0 \<le> x" "x \<le> 1" "0 \<le> y"
  shows "\<exists>p. Math_pow x y = Some p \<and> 0 \<le> p \<and> p \<le> 1"
  using assms by (auto simp: Math_pow_def powr_le1)

lemma Math_pow_twice:
  assumes "0 \<le> x" "0 \<le> y" "Math_pow x y = Some p"
  shows "Math_pow x (2 * y) = Some (p * p)"
  using assms by (auto simp: Math_pow_def powr_add [symmetric] split: if_splits)

lemma lerp_between:
  fixes a b f :: real
  assumes "0 \<le> f" "f \<le> 1"
  shows "min a b \<le> a + (b - a) * f" "a + (b - a) * f \<le> max a b"
proof -
  have eq: "a + (b - a) * f = (1 - f) * a + f * b" by (simp add: algebra_simps)
  have "(1 - f) * min a b \<le> (1 - f) * a" "f * min a b \<le> f * b"
    using assms by (auto intro: mult_left_mono)
  then have "(1 - f) * min a b + f * min a b \<le> (1 - f) * a + f * b" by linarith
  then show "min a b \<le> a + (b - a) * f" by (simp add: eq algebra_simps)
  have "(1 - f) * a \<le> (1 - f) * max a b" "f * b \<le> f * max a b"
    using assms by (auto intro: mult_left_mono)
  then have "(1 - f) * a + f * b \<le> (1 - f) * max a b + f * max a b" by linarith
  then show "a + (b - a) * f \<le> max a b" by (simp add: eq algebra_simps)
qed

text \<open>
  \<open>smoothLerp\<close> in double arithmetic: the three roundings of
  \<open>current + (target - current) * factor\<close> move the result by at most
  \<open>(\<bar>current\<bar> + \<bar>target\<bar>) * 2 ^ - 50\<close>, and the factor stays in \<open>[0, 1]\<close>.
\<close>

lemma lerp_f64_error:
  assumes f: "0 \<le> f" "f \<le> 1"
  shows "\<bar>f64 (c + f64 (f64 (t - c) * f)) - (c + (t - c) * f)\<bar> \<le> (\<bar>c\<bar> + \<bar>t\<bar>) / 2 ^ 50"
proof -
  define S where "S = \<bar>c\<bar> + \<bar>t\<bar>"
  define U where "U = S / 2 ^ 53"
  define a where "a = t - c"
  define d1 where "d1 = f64 a"
  define m where "m = d1 * f"
  define d2 where "d2 = f64 m"
  define s where "s = c + d2"
  define e where "e = c + a * f"
  have S0: "0 \<le> S" by (simp add: S_def)
  have U0: "0 \<le> U" using S0 by (simp add: U_def)
  have US: "U \<le> S" using S0 by (simp add: U_def divide_le_eq)
  have aS: "\<bar>a\<bar> \<le> S" unfolding a_def S_def by linarith
  have "\<bar>d1 - a\<bar> \<le> \<bar>a\<bar> / 2 ^ 53" unfolding d1_def by (rule f64_error)
  also have "\<dots> \<le> U" unfolding U_def using aS by (rule divide_right_mono) simp
  finally have e1: "\<bar>d1 - a\<bar> \<le> U" .
  have d1S: "\<bar>d1\<bar> \<le> 2 * S" using e1 aS US by linarith
  have "\<bar>m\<bar> = \<bar>d1\<bar> * f" using f by (simp add: m_def abs_mult)
  also have "\<dots> \<le> \<bar>d1\<bar>" using f by (simp add: mult_right_le_one_le)
  finally have mS: "\<bar>m\<bar> \<le> 2 * S" using d1S by linarith
  have "\<bar>d2 - m\<bar> \<le> \<bar>m\<bar> / 2 ^ 53" unfolding d2_def by (rule f64_error)
  also have "\<dots> \<le> 2 * S / 2 ^ 53" using mS by (rule divide_right_mono) simp
  finally have e2: "\<bar>d2 - m\<bar> \<le> 2 * U" by (simp add: U_def)
  have "\<bar>m - a * f\<bar> = \<bar>d1 - a\<bar> * f" using f by (simp add: m_def abs_mult left_diff_distrib [symmetric])
  also have "\<dots> \<le> \<bar>d1 - a\<bar>" using f by (simp add: mult_right_le_one_le)
  finally have e3: "\<bar>m - a * f\<bar> \<le> U" using e1 by linarith
  have se: "\<bar>s - e\<bar> \<le> 3 * U" unfolding s_def e_def using e2 e3 by linarith
  have "e = (1 - f) * c + f * t" by (simp add: e_def a_def algebra_simps)
  then have "\<bar>e\<bar> \<le> \<bar>(1 - f) * c\<bar> + \<bar>f * t\<bar>" by (simp add: abs_triangle_ineq)
  also have "\<dots> = (1 - f) * \<bar>c\<bar> + f * \<bar>t\<bar>" using f by (simp add: abs_mult)
  also have "\<dots> \<le> \<bar>c\<bar> + \<bar>t\<bar>"
  proof -
    have "(1 - f) * \<bar>c\<bar> \<le> 1 * \<bar>c\<bar>" using f by (intro mult_right_mono) simp_all
    moreover have "f * \<bar>t\<bar> \<le> 1 * \<bar>t\<bar>" using f by (intro mult_right_mono) simp_all
    ultimately show ?thesis by simp
  qed
  finally have eS: "\<bar>e\<bar> \<le> S" by (simp add: S_def)
  have sS: "\<bar>s\<bar> \<le> 4 * S" using se eS US by linarith
  have "\<bar>f64 s - s\<bar> \<le> \<bar>s\<bar> / 2 ^ 53" by (rule f64_error)
  also have "\<dots> \<le> 4 * S / 2 ^ 53" using sS by (rule divide_right_mono) simp
  finally have e4: "\<bar>f64 s - s\<bar> \<le> 4 * U" by (simp add: U_def)
  have "\<bar>f64 s - e\<bar> \<le> 7 * U" using e4 se by linarith
  also have "\<dots> \<le> 8 * U" using U0 by simp
  also have "\<dots> = S / 2 ^ 50" by (simp add: U_def)
  finally show ?thesis
    unfolding s_def d2_def m_def d1_def e_def a_def S_def .
qed

lemma smoothLerp_f64_pow:
  assumes "0 \<le> speed" "speed \<le> 1" "0 \<le> dt"
  shows "\<exists>p. Math_pow_f64 (f64 (1 - speed)) (f64 (dt * 60)) = Some p \<and> 0 \<le> p \<and> p \<le> 1"
proof -
  have b: "0 \<le> f64 (1 - speed)" "f64 (1 - speed) \<le> 1"
    using assms by (simp_all add: f64_nonneg f64_le_one)
  have y: "0 \<le> f64 (dt * 60)" using assms by (simp add: f64_nonneg)
  obtain q where q: "Math_pow (f64 (1 - speed)) (f64 (dt * 60)) = Some q" "0 \<le> q" "q \<le> 1"
    using Math_pow_unit_interval [OF b y] by blast
  have "Math_pow_f64 (f64 (1 - speed)) (f64 (dt * 60)) = Some (f64 q)"
    by (simp add: Math_pow_f64_def q)
  moreover have "0 \<le> f64 q" "f64 q \<le> 1" using q by (simp_all add: f64_nonneg f64_le_one)
  ultimately show ?thesis by blast
qed

lemma smoothLerp_f64_between:
  assumes "0 \<le> speed" "speed \<le> 1" "0 \<le> dt"
  shows "\<exists>r. smoothLerp_f64 current target speed dt = Some r
           \<and> min current target - (\<bar>current\<bar> + \<bar>target\<bar>) / 2 ^ 50 \<le> r
           \<and> r \<le> max current target + (\<bar>current\<bar> + \<bar>target\<bar>) / 2 ^ 50"
proof -
  obtain p where p: "Math_pow_f64 (f64 (1 - speed)) (f64 (dt * 60)) = Some p" "0 \<le> p" "p \<le> 1"
    using smoothLerp_f64_pow [OF assms] by blast
  define f where "f = f64 (1 - p)"
  have f: "0 \<le> f" "f \<le> 1" using p by (simp_all add: f_def f64_nonneg f64_le_one)
  define r where "r = f64 (current + f64 (f64 (target - current) * f))"
  have r: "smoothLerp_f64 current target speed dt = Some r"
    by (simp add: smoothLerp_f64_def p Let_def r_def f_def)
  have err: "\<bar>r - (current + (target - current) * f)\<bar> \<le> (\<bar>current\<bar> + \<bar>target\<bar>) / 2 ^ 50"
    unfolding r_def by (rule lerp_f64_error [OF f])
  have "min current target \<le> current + (target - current) * f"
       "current + (target - current) * f \<le> max current target"
    using f lerp_between [of f current target] by simp_all
  with err have "min current target - (\<bar>current\<bar> + \<bar>target\<bar>) / 2 ^ 50 \<le> r"
    "r \<le> max current target + (\<bar>current\<bar> + \<bar>target\<bar>) / 2 ^ 50"
    by linarith+
  with r show ?thesis by blast
qed

lemma smoothLerp_f64_fixed:
  assumes "0 \<le> speed" "speed \<le> 1" "0 \<le> dt" "f64 x = x"
  shows "smoothLerp_f64 x x speed dt = Some x"
proof -
  obtain p where p: "Math_pow_f64 (f64 (1 - speed)) (f64 (dt * 60)) = Some p"
    using smoothLerp_f64_pow [OF assms(1-3)] by blast
  show ?thesis by (simp add: smoothLerp_f64_def p Let_def f64_0 assms(4))
qed

lemma smoothLerp_f64_still:
  assumes "f64 v = v"
  shows "smoothLerp_f64 v target 0 dt = Some v"
  by (simp add: smoothLerp_f64_def Math_pow_f64_def Math_pow_def f64_one f64_0 Let_def assms)

lemma smoothLerp_f64_stay:
  assumes "f64 v = v"
  shows "smoothLerp_f64 v target 1 0 = Some v"
  by (simp add: smoothLerp_f64_def Math_pow_f64_def Math_pow_def f64_one f64_0 Let_def assms)

lemma smoothLerp_f64_snap:
  assumes "0 < dt"
  shows "\<exists>r. smoothLerp_f64 v target 1 dt = Some r
           \<and> \<bar>r - target\<bar> \<le> (\<bar>v\<bar> + \<bar>target\<bar>) / 2 ^ 50"
proof -
  have y: "0 < f64 (dt * 60)" using assms by (simp add: f64_pos)
  have p: "Math_pow_f64 (f64 (1 - 1)) (f64 (dt * 60)) = Some 0"
    using y by (simp add: Math_pow_f64_def Math_pow_def f64_0)
  define r where "r = f64 (v + f64 (f64 (target - v) * 1))"
  have r: "smoothLerp_f64 v target 1 dt = Some r"
    unfolding smoothLerp_f64_def p by (simp add: Let_def f64_one r_def)
  have "\<bar>r - (v + (target - v) * 1)\<bar> \<le> (\<bar>v\<bar> + \<bar>target\<bar>) / 2 ^ 50"
    unfolding r_def by (rule lerp_f64_error) simp_all
  then have "\<bar>r - target\<bar> \<le> (\<bar>v\<bar> + \<bar>target\<bar>) / 2 ^ 50" by simp
  with r show ?thesis by blast
qed

text \<open>Three runs in double arithmetic: \<open>smoothLerp(-2, 0.1, 1, 1/60)\<close>,
  \<open>smoothLerp(1e16, 1, 1, 1)\<close>, and the doubles 7 and 3.\<close>

lemma f64_sixtieth: "f64 (1/60) = 4803839602528529 / 2 ^ 58"
  by (subst f64_binade [where e = "- 6"]) (simp_all add: round_half_even_def power_int_minus)

lemma f64_sixtieth_times: "f64 (4803839602528529 / 2 ^ 58 * 60) = 1"
  by (subst f64_binade [where e = "- 1"]) (simp_all add: round_half_even_def power_int_minus)

lemma f64_one_minus_one: "f64 (1 - 1) = 0"
  by (simp add: f64_0)

lemma f64_one_minus_zero: "f64 (1 - 0) = 1"
  by (simp add: f64_one)

lemma Math_pow_f64_zero_one: "Math_pow_f64 0 1 = Some 0"
  by (simp add: Math_pow_f64_def Math_pow_def f64_0)

lemma overshoot_sub: "f64 (7205759403792794 / 2 ^ 56 - - 2) = 4728779608739021 / 2 ^ 51"
  by (subst f64_binade [where e = 1]) (simp_all add: round_half_even_def power_int_minus)

lemma overshoot_mul: "f64 (4728779608739021 / 2 ^ 51 * 1) = 4728779608739021 / 2 ^ 51"
  by (subst f64_binade [where e = 1]) (simp_all add: round_half_even_def power_int_minus)

lemma overshoot_add: "f64 (- 2 + 4728779608739021 / 2 ^ 51) = 7205759403792800 / 2 ^ 56"
  by (subst f64_binade [where e = "- 4"]) (simp_all add: round_half_even_def power_int_minus)

lemma smoothLerp_f64_overshoot:
  "smoothLerp_f64 (- 2) (f64 0.1) 1 (f64 (1/60)) = Some (7205759403792800 / 2 ^ 56)"
  unfolding smoothLerp_f64_def f64_01 f64_sixtieth f64_sixtieth_times f64_one_minus_one
    Math_pow_f64_zero_one option.map Let_def f64_one_minus_zero
    overshoot_sub overshoot_mul overshoot_add
  by (rule refl)

lemma f64_sixty: "f64 (1 * 60) = 60"
  by (subst f64_binade [where e = 5]) (simp_all add: round_half_even_def power_int_minus)

lemma Math_pow_f64_zero_sixty: "Math_pow_f64 0 60 = Some 0"
  by (simp add: Math_pow_f64_def Math_pow_def f64_0)

lemma absorb_sub: "f64 (1 - 10 ^ 16) = - (10 ^ 16)"
  by (subst f64_binade [where e = 53]) (simp_all add: round_half_even_def power_int_minus)

lemma absorb_mul: "f64 (- (10 ^ 16) * 1) = - (10 ^ 16)"
  by (subst f64_binade [where e = 53]) (simp_all add: round_half_even_def power_int_minus)

lemma absorb_add: "f64 (10 ^ 16 + - (10 ^ 16)) = 0"
  by (simp add: f64_0)

lemma smoothLerp_f64_absorbed: "smoothLerp_f64 (10 ^ 16) 1 1 1 = Some 0"
  unfolding smoothLerp_f64_def f64_sixty f64_one_minus_one
    Math_pow_f64_zero_sixty option.map Let_def f64_one_minus_zero
    absorb_sub absorb_mul absorb_add
  by (rule refl)

lemma f64_7: "f64 7 = 7"
  by (rule f64_exact [where e = 2 and n = "7 * 2 ^ 50"]) (simp_all add: power_int_minus)

lemma f64_3: "f64 3 = 3"
  by (rule f64_exact [where e = 1 and n = "3 * 2 ^ 51"]) (simp_all add: power_int_minus)

text \<open>
  Claim C6 as stated fails. At \<open>dt = 0\<close>, \<open>Math.pow(0, 0)\<close> is 1, so at speed 1 the factor
  is 0 and the value does not move, in real and in double arithmetic. In double
  arithmetic it fails at \<open>dt > 0\<close> too: \<open>smoothLerp(-2, 0.1, 1, 1/60)\<close> is
  \<open>0.10000000000000009\<close>, six units above the target \<open>0.1\<close> and so outside the interval
  between \<open>current\<close> and \<open>target\<close>, and \<open>smoothLerp(1e16, 1, 1, 1)\<close> is 0, not 1.
\<close>

theorem smoothLerp_snap_counterexample:
  "smoothLerp 0 100 1 0 = Some 0 \<and> smoothLerp 0 100 1 0 \<noteq> Some 100
   \<and> smoothLerp_f64 0 100 1 0 = Some 0
   \<and> f64 0.1 = 7205759403792794 / 2 ^ 56
   \<and> smoothLerp_f64 (- 2) (f64 0.1) 1 (f64 (1/60)) = Some (7205759403792800 / 2 ^ 56)
   \<and> smoothLerp_f64 (10 ^ 16) 1 1 1 = Some 0"
proof -
  have "smoothLerp 0 100 1 0 = Some 0 \<and> smoothLerp 0 100 1 0 \<noteq> Some 100"
    by (simp add: smoothLerp_def Math_pow_def)
  moreover have "smoothLerp_f64 0 100 1 0 = Some 0"
    by (rule smoothLerp_f64_stay) (rule f64_0)
  ultimately show ?thesis
    using f64_01 smoothLerp_f64_overshoot smoothLerp_f64_absorbed by blast
qed

text \<open>
  Claim C6, amended. For every speed in \<open>[0, 1]\<close> and every \<open>dt \<ge> 0\<close>. In exact real
  arithmetic: \<open>smoothLerp(x, x, speed, dt) = x\<close>; \<open>smoothLerp(v, target, 0, dt) = v\<close>;
  \<open>smoothLerp(v, target, 1, dt) = target\<close> when \<open>dt > 0\<close>, and \<open>v\<close> when \<open>dt = 0\<close>;
  and the result lies weakly between \<open>current\<close> and \<open>target\<close>. In double arithmetic,
  for doubles \<open>x\<close> and \<open>v\<close>: \<open>smoothLerp(x, x, speed, dt) = x\<close>,
  \<open>smoothLerp(v, target, 0, dt) = v\<close> and \<open>smoothLerp(v, target, 1, 0) = v\<close> hold exactly;
  \<open>smoothLerp(v, target, 1, dt)\<close> with \<open>dt > 0\<close> is within
  \<open>(\<bar>v\<bar> + \<bar>target\<bar>) * 2 ^ - 50\<close> of \<open>target\<close>; and the result lies between \<open>current\<close>
  and \<open>target\<close> up to \<open>(\<bar>current\<bar> + \<bar>target\<bar>) * 2 ^ - 50\<close> on either side.
\<close>

theorem smoothLerp_approach:
  assumes "0 \<le> speed" "speed \<le> 1" "0 \<le> dt"
  shows "smoothLerp x x speed dt = Some x
   \<and> smoothLerp v target 0 dt = Some v
   \<and> (0 < dt \<longrightarrow> smoothLerp v target 1 dt = Some target)
   \<and> smoothLerp v target 1 0 = Some v
   \<and> (\<exists>r. smoothLerp current target speed dt = Some r
          \<and> min current target \<le> r \<and> r \<le> max current target)
   \<and> (f64 x = x \<longrightarrow> smoothLerp_f64 x x speed dt = Some x)
   \<and> (f64 v = v \<longrightarrow> smoothLerp_f64 v target 0 dt = Some v)
   \<and> (f64 v = v \<longrightarrow> smoothLerp_f64 v target 1 0 = Some v)
   \<and> (0 < dt \<longrightarrow> (\<exists>r. smoothLerp_f64 v target 1 dt = Some r
          \<and> \<bar>r - target\<bar> \<le> (\<bar>v\<bar> + \<bar>target\<bar>) / 2 ^ 50))
   \<and> (\<exists>r. smoothLerp_f64 current target speed dt = Some r
          \<and> min current target - (\<bar>current\<bar> + \<bar>target\<bar>) / 2 ^ 50 \<le> r
          \<and> r \<le> max current target + (\<bar>current\<bar> + \<bar>target\<bar>) / 2 ^ 50)"
proof -
  obtain p where p: "Math_pow (1 - speed) (dt * 60) = Some p" "0 \<le> p" "p \<le> 1"
    using assms Math_pow_unit_interval [of "1 - speed" "dt * 60"] by auto
  have fixed: "smoothLerp x x speed dt = Some x"
    by (simp add: smoothLerp_def p)
  have still: "smoothLerp v target 0 dt = Some v"
    by (simp add: smoothLerp_def Math_pow_def)
  have snap: "0 < dt \<longrightarrow> smoothLerp v target 1 dt = Some target"
    by (simp add: smoothLerp_def Math_pow_def)
  have stay: "smoothLerp v target 1 0 = Some v"
    by (simp add: smoothLerp_def Math_pow_def)
  have r: "smoothLerp current target speed dt = Some (current + (target - current) * (1 - p))"
    by (simp add: smoothLerp_def p)
  have "min current target \<le> current + (target - current) * (1 - p)"
       "current + (target - current) * (1 - p) \<le> max current target"
    using p lerp_between [of "1 - p" current target] by simp_all
  with r have between: "\<exists>r. smoothLerp current target speed dt = Some r
          \<and> min current target \<le> r \<and> r \<le> max current target"
    by blast
  have fixed_f64: "f64 x = x \<longrightarrow> smoothLerp_f64 x x speed dt = Some x"
    using smoothLerp_f64_fixed [OF assms] by blast
  have still_f64: "f64 v = v \<longrightarrow> smoothLerp_f64 v target 0 dt = Some v"
    using smoothLerp_f64_still by blast
  have stay_f64: "f64 v = v \<longrightarrow> smoothLerp_f64 v target 1 0 = Some v"
    using smoothLerp_f64_stay by blast
  have snap_f64: "0 < dt \<longrightarrow> (\<exists>r. smoothLerp_f64 v target 1 dt = Some r
          \<and> \<bar>r - target\<bar> \<le> (\<bar>v\<bar> + \<bar>target\<bar>) / 2 ^ 50)"
    using smoothLerp_f64_snap by blast
  note between_f64 = smoothLerp_f64_between [OF assms, of current target]
  show ?thesis
    by (intro conjI fixed still snap stay between fixed_f64 still_f64 stay_f64 snap_f64
        between_f64)
qed

theorem smoothLerp_approach_witness:
  "smoothLerp 7 7 (1/2) (1/60) = Some 7
   \<and> smoothLerp 3 9 0 (1/60) = Some 3
   \<and> smoothLerp 3 9 1 (1/60) = Some 9
   \<and> smoothLerp 3 9 1 0 = Some 3
   \<and> (\<exists>r. smoothLerp 0 9 (1/2) (1/60) = Some r \<and> 0 \<le> r \<and> r \<le> 9)
   \<and> smoothLerp_f64 7 7 (1/2) (1/60) = Some 7
   \<and> smoothLerp_f64 3 9 0 (1/60) = Some 3
   \<and> smoothLerp_f64 3 9 1 0 = Some 3
   \<and> (\<exists>r. smoothLerp_f64 3 9 1 (1/60) = Some r \<and> \<bar>r - 9\<bar> \<le> 12 / 2 ^ 50)
   \<and> (\<exists>r. smoothLerp_f64 0 9 (1/2) (1/60) = Some r \<and> - (9 / 2 ^ 50) \<le> r \<and> r \<le> 9 + 9 / 2 ^ 50)"
  using smoothLerp_approach [where speed = "1/2" and dt = "1/60" and x = 7 and v = 3
      and target = 9 and current = 0] f64_7 f64_3
  by simp

text \<open>
  Claim C7. For every speed in \<open>[0, 1]\<close> and every step \<open>d \<ge> 0\<close>, two steps of
  \<open>smoothLerp\<close> with \<open>dt = d\<close> give exactly what one step with \<open>dt = 2 * d\<close> gives.
\<close>

theorem smoothLerp_frame_rate_independent:
  assumes "0 \<le> speed" "speed \<le> 1" "0 \<le> d"
  shows "\<exists>m r. smoothLerp current target speed d = Some m
           \<and> smoothLerp m target speed d = Some r
           \<and> smoothLerp current target speed (2 * d) = Some r"
proof -
  obtain p where p: "Math_pow (1 - speed) (d * 60) = Some p"
    using assms Math_pow_unit_interval [of "1 - speed" "d * 60"] by auto
  have "Math_pow (1 - speed) (2 * (d * 60)) = Some (p * p)"
    using assms p by (intro Math_pow_twice) auto
  then have p2: "Math_pow (1 - speed) (2 * d * 60) = Some (p * p)"
    by (simp add: mult.assoc)
  define m where "m = current + (target - current) * (1 - p)"
  define r where "r = m + (target - m) * (1 - p)"
  have one: "smoothLerp current target speed d = Some m"
    by (simp add: smoothLerp_def p m_def)
  have two: "smoothLerp m target speed d = Some r"
    by (simp add: smoothLerp_def p r_def)
  have "current + (target - current) * (1 - p * p) = r"
    by (simp add: r_def m_def algebra_simps)
  then have big: "smoothLerp current target speed (2 * d) = Some r"
    unfolding smoothLerp_def p2 by simp
  from one two big show ?thesis by blast
qed

theorem smoothLerp_frame_rate_independent_witness:
  "\<exists>m r. smoothLerp 0 100 (1/2) (1/60) = Some m
        \<and> smoothLerp m 100 (1/2) (1/60) = Some r
        \<and> smoothLerp 0 100 (1/2) (2 * (1/60)) = Some r"
  using smoothLerp_frame_rate_independent [of "1/2" "1/60" 0 100]
  by simp

section \<open>Properties of the BurstSystem\<close>

lemma createLayer_lengths:
  "length (points_positions (createLayer n color sz speed rnd)) = 3 * n"
  "length (positions (createLayer n color sz speed rnd)) = 3 * n"
  "length (velocities (createLayer n color sz speed rnd)) = 3 * n"
  "length (lifetimes (createLayer n color sz speed rnd)) = n"
  by (simp_all add: createLayer_def Let_def length_concat comp_def sum_list_triv)

lemma createLayer_zeros:
  "points_positions (createLayer n color sz speed rnd) = replicate (3 * n) 0"
  by (simp add: createLayer_def Let_def mult.commute)

lemma createLayers_from_delay:
  "map delay (createLayers_from cs k rnd) = map (\<lambda>i. real i * 0.1) [k..<k + length cs]"
proof (induction cs arbitrary: k rnd)
  case Nil
  show ?case by simp
next
  case (Cons c cs)
  have "[k..<k + length (c # cs)] = k # [Suc k..<Suc k + length cs]"
    by (simp add: upt_rec)
  then show ?case by (simp add: Cons.IH)
qed

lemma createLayers_from_zeros:
  "map points_positions (createLayers_from cs k rnd) = map (\<lambda>c. replicate (3 * cfg_count c) 0) cs"
  by (induction cs arbitrary: k rnd) (simp_all add: createLayer_zeros)

lemma length_layerConfigs: "length layerConfigs = 5"
  by (simp add: layerConfigs_def)

lemma createLayers_delay: "map delay (createLayers rnd) = map (\<lambda>i. real i * 0.1) [0..<5]"
proof -
  have "map delay (createLayers rnd) = map (\<lambda>i. real i * 0.1) [0..<0 + length layerConfigs]"
    unfolding createLayers_def by (rule createLayers_from_delay)
  then show ?thesis by (simp only: length_layerConfigs add_0)
qed

lemma createLayers_zeros:
  "map points_positions (createLayers rnd) = map (\<lambda>n. replicate (3 * n) 0) [3000, 2000, 2000, 1500, 1000]"
proof -
  have "map points_positions (createLayers rnd) = map (\<lambda>c. replicate (3 * cfg_count c) 0) layerConfigs"
    unfolding createLayers_def by (rule createLayers_from_zeros)
  then show ?thesis by (simp add: layerConfigs_def)
qed

lemma length_update_particles:
  "length (foldl (update_particle elapsed layer) ps js) = length ps"
  by (induction js arbitrary: ps) (simp_all add: update_particle_def Let_def)

lemma trigger_layer_keeps:
  "delay (trigger_layer t0 l) = delay l"
  "velocities (trigger_layer t0 l) = velocities l"
  "lifetimes (trigger_layer t0 l) = lifetimes l"
  "positions (trigger_layer t0 l) = positions l"
  "length (points_positions (trigger_layer t0 l)) = length (points_positions l)"
  by (simp_all add: trigger_layer_def)

lemma update_layer_keeps:
  "delay (update_layer time l) = delay l"
  "velocities (update_layer time l) = velocities l"
  "lifetimes (update_layer time l) = lifetimes l"
  "positions (update_layer time l) = positions l"
  "length (points_positions (update_layer time l)) = length (points_positions l)"
  by (simp_all add: update_layer_def Let_def length_update_particles split: option.splits)

lemma BurstSystem_call_fixed:
  "map fixed_part (layers (BurstSystem_call sys c)) = map fixed_part (layers sys)"
  by (cases c)
     (simp_all add: BurstSystem_trigger_def BurstSystem_update_def fixed_part_def
        trigger_layer_keeps update_layer_keeps)

lemma BurstSystem_run_fixed:
  "map fixed_part (layers (BurstSystem_run calls sys)) = map fixed_part (layers sys)"
  unfolding BurstSystem_run_def
  by (induction calls arbitrary: sys) (simp_all add: BurstSystem_call_fixed)

lemma map_through:
  assumes "map f xs = map f ys"
  shows "map (\<lambda>x. g (f x)) xs = map (\<lambda>x. g (f x)) ys"
proof -
  have "map g (map f xs) = map g (map f ys)"
    by (simp only: assms)
  then show ?thesis by (simp add: comp_def)
qed

lemma fixed_part_fields:
  assumes "map fixed_part ls = map fixed_part ls'"
  shows "map delay ls = map delay ls'" "map velocities ls = map velocities ls'"
    "map lifetimes ls = map lifetimes ls'"
    "map (\<lambda>l. length (points_positions l)) ls = map (\<lambda>l. length (points_positions l)) ls'"
proof -
  show "map delay ls = map delay ls'"
    using map_through [OF assms, of fst] by (simp add: fixed_part_def)
  show "map velocities ls = map velocities ls'"
    using map_through [OF assms, of "\<lambda>p. fst (snd p)"] by (simp add: fixed_part_def)
  show "map lifetimes ls = map lifetimes ls'"
    using map_through [OF assms, of "\<lambda>p. fst (snd (snd p))"] by (simp add: fixed_part_def)
  show "map (\<lambda>l. length (points_positions l)) ls = map (\<lambda>l. length (points_positions l)) ls'"
    using map_through [OF assms, of "\<lambda>p. snd (snd (snd (snd p)))"] by (simp add: fixed_part_def)
qed

lemma trigger_startTime:
  "map startTime (layers (BurstSystem_trigger t0 sys)) = map (\<lambda>d. Some (t0 + d)) (map delay (layers sys))"
  by (simp add: BurstSystem_trigger_def trigger_layer_def comp_def)

lemma trigger_positions:
  "map points_positions (layers (BurstSystem_trigger t0 sys)) =
     map (\<lambda>n. replicate n 0) (map (\<lambda>l. length (points_positions l)) (layers sys))"
  by (simp add: BurstSystem_trigger_def trigger_layer_def comp_def map_replicate_const)

lemma trigger_opacity:
  "map points_opacity (layers (BurstSystem_trigger t0 sys)) = replicate (length (layers sys)) 1"
  by (simp add: BurstSystem_trigger_def trigger_layer_def comp_def map_replicate_const)

text \<open>
  Claim C9. On the system that the constructor builds, after any calls of
  \<open>trigger\<close> and \<open>update\<close>, \<open>trigger(startTime)\<close> sets the start time of layer
  \<open>i\<close> to \<open>startTime + i * 0.1\<close>, sets every particle position of every layer to the
  origin and every layer's opacity to 1, and leaves the velocities and the lifetimes of
  every layer as they are: they are the ones fixed at construction.
\<close>

theorem BurstSystem_trigger_restarts:
  "map startTime (layers (BurstSystem_trigger t0 (BurstSystem_run calls (BurstSystem_new rnd))))
     = map (\<lambda>i. Some (t0 + real i * 0.1)) [0..<5]
   \<and> map points_positions (layers (BurstSystem_trigger t0 (BurstSystem_run calls (BurstSystem_new rnd))))
     = map (\<lambda>n. replicate (3 * n) 0) [3000, 2000, 2000, 1500, 1000]
   \<and> map points_opacity (layers (BurstSystem_trigger t0 (BurstSystem_run calls (BurstSystem_new rnd))))
     = replicate 5 1
   \<and> map velocities (layers (BurstSystem_trigger t0 (BurstSystem_run calls (BurstSystem_new rnd))))
     = map velocities (layers (BurstSystem_run calls (BurstSystem_new rnd)))
   \<and> map lifetimes (layers (BurstSystem_trigger t0 (BurstSystem_run calls (BurstSystem_new rnd))))
     = map lifetimes (layers (BurstSystem_run calls (BurstSystem_new rnd)))
   \<and> map velocities (layers (BurstSystem_trigger t0 (BurstSystem_run calls (BurstSystem_new rnd))))
     = map velocities (createLayers rnd)
   \<and> map lifetimes (layers (BurstSystem_trigger t0 (BurstSystem_run calls (BurstSystem_new rnd))))
     = map lifetimes (createLayers rnd)"
proof -
  let ?new = "BurstSystem_new rnd"
  let ?sys = "BurstSystem_run calls ?new"
  let ?sys' = "BurstSystem_trigger t0 ?sys"
  have run: "map fixed_part (layers ?sys) = map fixed_part (createLayers rnd)"
    using BurstSystem_run_fixed [of calls ?new] by (simp add: BurstSystem_new_def)
  have trig: "map fixed_part (layers ?sys') = map fixed_part (layers ?sys)"
    using BurstSystem_call_fixed [of ?sys "Trigger t0"] by simp
  have delays: "map delay (layers ?sys) = map (\<lambda>i. real i * 0.1) [0..<5]"
    using fixed_part_fields(1) [OF run] by (simp add: createLayers_delay)
  have sizes: "map (\<lambda>l. length (points_positions l)) (layers ?sys)
      = map (\<lambda>l. length (points_positions l)) (createLayers rnd)"
    by (rule fixed_part_fields(4) [OF run])
  have "map (\<lambda>l. length (points_positions l)) (createLayers rnd)
      = map length (map points_positions (createLayers rnd))"
    by (simp add: comp_def)
  also have "\<dots> = map (\<lambda>n. 3 * n) [3000, 2000, 2000, 1500, 1000]"
    by (simp add: createLayers_zeros)
  finally have sizes': "map (\<lambda>l. length (points_positions l)) (layers ?sys)
      = map (\<lambda>n. 3 * n) [3000, 2000, 2000, 1500, 1000]"
    using sizes by simp
  have five: "length (layers ?sys) = 5"
    using arg_cong [OF delays, of length] by simp
  have a: "map startTime (layers ?sys') = map (\<lambda>i. Some (t0 + real i * 0.1)) [0..<5]"
    unfolding trigger_startTime delays by (simp add: comp_def)
  have b: "map points_positions (layers ?sys') = map (\<lambda>n. replicate (3 * n) 0) [3000, 2000, 2000, 1500, 1000]"
    unfolding trigger_positions sizes' by simp
  have c: "map points_opacity (layers ?sys') = replicate 5 1"
    unfolding trigger_opacity five by simp
  have d: "map velocities (layers ?sys') = map velocities (layers ?sys)"
    by (rule fixed_part_fields(2) [OF trig])
  have e: "map lifetimes (layers ?sys') = map lifetimes (layers ?sys)"
    by (rule fixed_part_fields(3) [OF trig])
  have f: "map velocities (layers ?sys') = map velocities (createLayers rnd)"
    using d fixed_part_fields(2) [OF run] by simp
  have g: "map lifetimes (layers ?sys') = map lifetimes (createLayers rnd)"
    using e fixed_part_fields(3) [OF run] by simp
  from a b c d e f g show ?thesis by blast
qed

section \<open>Properties of the FireworkSystem\<close>

lemma advance_keeps:
  "fw_points (advance time f) = fw_points f"
  "fw_startTime (advance time f) = fw_startTime f"
  "fw_lifetime (advance time f) = fw_lifetime f"
  "fw_velocities (advance time f) = fw_velocities f"
  by (simp_all add: advance_def Let_def)

lemma expired_advance: "expired time (advance t' f) = expired time f"
  by (simp add: expired_def advance_keeps)

lemma expired_settle: "expired time (settle time f) = expired time f"
  by (simp add: settle_def expired_advance)

lemma first_loop:
  "n \<le> length fs \<Longrightarrow>
   foldl (update_round time) ([], fs) [0..<n] =
     (filter (\<lambda>i. expired time (fs ! i)) [0..<n], map (settle time) (take n fs) @ drop n fs)"
proof (induction n)
  case 0
  show ?case by simp
next
  case (Suc n)
  then have n: "n < length fs" by simp
  let ?done = "map (settle time) (take n fs)"
  let ?now = "?done @ drop n fs"
  let ?idx = "filter (\<lambda>i. expired time (fs ! i)) [0..<n]"
  have before: "foldl (update_round time) ([], fs) [0..<n] = (?idx, ?now)"
    using Suc.IH n by simp
  have at_n: "?now ! n = fs ! n"
    using n by (simp add: nth_append)
  have tk: "take (Suc n) fs = take n fs @ [fs ! n]"
    using n by (simp add: take_Suc_conv_app_nth)
  have dr: "drop n fs = fs ! n # drop (Suc n) fs"
    using n by (simp add: Cons_nth_drop_Suc)
  have upd: "?now[n := x] = ?done @ x # drop (Suc n) fs" for x
    using n by (subst dr) (simp add: list_update_append)
  have same: "?now = ?done @ fs ! n # drop (Suc n) fs"
    by (subst dr) simp
  have round: "update_round time (?idx, ?now) n =
      (filter (\<lambda>i. expired time (fs ! i)) [0..<Suc n],
       map (settle time) (take (Suc n) fs) @ drop (Suc n) fs)"
  proof (cases "expired time (fs ! n)")
    case True
    then show ?thesis
      unfolding update_round_def by (simp add: at_n tk settle_def same [symmetric])
  next
    case False
    then show ?thesis
      unfolding update_round_def by (simp add: at_n tk settle_def upd del: list_update.simps)
  qed
  have "foldl (update_round time) ([], fs) [0..<Suc n]
      = update_round time (foldl (update_round time) ([], fs) [0..<n]) n"
    by simp
  then show ?case by (simp only: before round)
qed

lemma first_loop_all:
  "foldl (update_round time) ([], fs) [0..<length fs] =
     (filter (\<lambda>i. expired time (fs ! i)) [0..<length fs], map (settle time) fs)"
  using first_loop [of "length fs" fs time] by simp

text \<open>Taking indices out of a prefix leaves a suffix alone.\<close>

lemma remove_rounds_append:
  "remove_rounds sys js = Some r \<Longrightarrow>
   remove_rounds (sys \<lparr> fireworks := fireworks sys @ zs \<rparr>) js
     = Some (r \<lparr> fireworks := fireworks r @ zs \<rparr>)"
proof (induction js arbitrary: sys)
  case Nil
  then show ?case by simp
next
  case (Cons j js)
  from Cons.prems obtain sys' where
    step: "remove_round sys j = Some sys'" and rest: "remove_rounds sys' js = Some r"
    by (auto split: option.splits)
  from step have j: "j < length (fireworks sys)"
    by (auto simp: remove_round_def split: if_splits)
  have "remove_round (sys \<lparr> fireworks := fireworks sys @ zs \<rparr>) j
      = Some (sys' \<lparr> fireworks := fireworks sys' @ zs \<rparr>)"
    using step j by (auto simp: remove_round_def Let_def nth_append split: if_splits)
  with Cons.IH [OF rest] show ?case by simp
qed

lemma second_loop:
  "fireworks sys = fs \<Longrightarrow>
   remove_rounds sys (rev (filter (\<lambda>i. Q (fs ! i)) [0..<length fs])) = Some (taken Q sys)"
proof (induction fs arbitrary: sys rule: rev_induct)
  case Nil
  then show ?case by (simp add: taken_def)
next
  case (snoc y ys)
  let ?n = "length ys"
  have idx: "filter (\<lambda>i. Q ((ys @ [y]) ! i)) [0..<?n] = filter (\<lambda>i. Q (ys ! i)) [0..<?n]"
    by (rule filter_cong) (simp_all add: nth_append)
  show ?case
  proof (cases "Q y")
    case True
    let ?sys' = "sys \<lparr> scene_children := removeAll (fw_points y) (scene_children sys),
                    disposed_geometries := disposed_geometries sys @ [fw_points y],
                    disposed_materials := disposed_materials sys @ [fw_points y],
                    fireworks := ys \<rparr>"
    have step: "remove_round sys ?n = Some ?sys'"
      using snoc.prems by (simp add: remove_round_def Let_def)
    have "remove_rounds ?sys' (rev (filter (\<lambda>i. Q (ys ! i)) [0..<?n])) = Some (taken Q ?sys')"
      by (rule snoc.IH) simp
    moreover have "taken Q ?sys' = taken Q sys"
      using True snoc.prems by (simp add: taken_def Let_def)
    ultimately show ?thesis
      using True step by (simp add: idx)
  next
    case False
    let ?sys' = "sys \<lparr> fireworks := ys \<rparr>"
    have "remove_rounds ?sys' (rev (filter (\<lambda>i. Q (ys ! i)) [0..<?n])) = Some (taken Q ?sys')"
      by (rule snoc.IH) simp
    from remove_rounds_append [OF this, of "[y]"]
    have "remove_rounds (sys \<lparr> fireworks := ys @ [y] \<rparr>) (rev (filter (\<lambda>i. Q (ys ! i)) [0..<?n]))
        = Some ((taken Q ?sys') \<lparr> fireworks := fireworks (taken Q ?sys') @ [y] \<rparr>)"
      by simp
    moreover have "sys \<lparr> fireworks := ys @ [y] \<rparr> = sys"
      using snoc.prems by (cases sys) simp
    ultimately have "remove_rounds sys (rev (filter (\<lambda>i. Q (ys ! i)) [0..<?n]))
        = Some ((taken Q ?sys') \<lparr> fireworks := fireworks (taken Q ?sys') @ [y] \<rparr>)"
      by simp
    moreover have "(taken Q ?sys') \<lparr> fireworks := fireworks (taken Q ?sys') @ [y] \<rparr> = taken Q sys"
      using False snoc.prems by (simp add: taken_def Let_def)
    ultimately show ?thesis
      using False by (simp add: idx)
  qed
qed

lemma FireworkSystem_update_eq:
  "FireworkSystem_update time dt sys =
     Some (taken (expired time) (sys \<lparr> fireworks := map (settle time) (fireworks sys) \<rparr>))"
proof -
  let ?fs = "fireworks sys"
  let ?fs1 = "map (settle time) ?fs"
  have idx: "filter (\<lambda>i. expired time (?fs ! i)) [0..<length ?fs]
      = filter (\<lambda>i. expired time (?fs1 ! i)) [0..<length ?fs1]"
    by (rule filter_cong) (simp_all add: expired_settle)
  have "remove_rounds (sys \<lparr> fireworks := ?fs1 \<rparr>)
          (rev (filter (\<lambda>i. expired time (?fs1 ! i)) [0..<length ?fs1]))
        = Some (taken (expired time) (sys \<lparr> fireworks := ?fs1 \<rparr>))"
    by (rule second_loop) simp
  then show ?thesis
    by (simp add: FireworkSystem_update_def first_loop_all idx)
qed

lemma filter_settle:
  "filter (\<lambda>f. \<not> expired time f) (map (settle time) fs) = map (advance time) (filter (\<lambda>f. \<not> expired time f) fs)"
  "filter (expired time) (map (settle time) fs) = filter (expired time) fs"
  by (induction fs) (simp_all add: settle_def expired_advance)

lemma set_foldl_removeAll: "set (foldl (\<lambda>cs p. removeAll p cs) cs ps) = set cs - set ps"
  by (induction ps arbitrary: cs) auto

lemma FireworkSystem_new_inv: "FireworkSystem_inv FireworkSystem_new"
  by (simp add: FireworkSystem_inv_def FireworkSystem_new_def)

lemma spawn_inv:
  assumes "FireworkSystem_inv sys" "\<forall>i. 0 \<le> rnd i"
  shows "FireworkSystem_inv (spawn time rnd sys)"
proof -
  have "(0::real) < 2.5 + rnd i" for i
    using assms(2) [rule_format, of i] by simp
  then show ?thesis
    using assms(1) by (auto simp: FireworkSystem_inv_def spawn_def Let_def less_Suc_eq)
qed

lemma update_fields:
  assumes "FireworkSystem_update time dt sys = Some sys'"
  shows "fireworks sys' = map (advance time) (filter (\<lambda>f. \<not> expired time f) (fireworks sys))"
    and "set (scene_children sys') = set (scene_children sys) - fw_points ` {f \<in> set (fireworks sys). expired time f}"
    and "set (disposed_geometries sys') = set (disposed_geometries sys) \<union> fw_points ` {f \<in> set (fireworks sys). expired time f}"
    and "set (disposed_materials sys') = set (disposed_materials sys) \<union> fw_points ` {f \<in> set (fireworks sys). expired time f}"
    and "next_object sys' = next_object sys"
  using assms unfolding FireworkSystem_update_eq
  by (auto simp: taken_def Let_def filter_settle set_foldl_removeAll)

lemma update_ids:
  assumes "FireworkSystem_update time dt sys = Some sys'"
  shows "map fw_points (fireworks sys') = map fw_points (filter (\<lambda>f. \<not> expired time f) (fireworks sys))"
  by (simp add: update_fields(1) [OF assms] advance_keeps comp_def)

lemma update_inv:
  assumes "FireworkSystem_inv sys" "FireworkSystem_update time dt sys = Some sys'"
  shows "FireworkSystem_inv sys'"
proof -
  have "distinct (map fw_points (filter (\<lambda>f. \<not> expired time f) (fireworks sys)))"
    using assms(1) by (simp add: FireworkSystem_inv_def distinct_map_filter)
  then have "distinct (map fw_points (fireworks sys'))"
    by (simp only: update_ids [OF assms(2)])
  moreover have "\<forall>f\<in>set (fireworks sys'). 0 < fw_lifetime f \<and> fw_points f < next_object sys'"
    using assms(1)
    by (auto simp: FireworkSystem_inv_def update_fields(1,5) [OF assms(2)] advance_keeps)
  ultimately show ?thesis by (simp add: FireworkSystem_inv_def)
qed

text \<open>An object that is not among the fireworks, and older than the next object, never
  comes back.\<close>

lemma call_never_back:
  assumes "FireworkSystem_call sys c = Some sys'"
    "p < next_object sys" "p \<notin> fw_points ` set (fireworks sys)"
  shows "p < next_object sys' \<and> p \<notin> fw_points ` set (fireworks sys')"
proof (cases c)
  case (SpawnAt time rnd)
  with assms show ?thesis by (auto simp: spawn_def Let_def)
next
  case (UpdateAt time dt)
  with assms have u: "FireworkSystem_update time dt sys = Some sys'" by simp
  have "set (map fw_points (fireworks sys')) \<subseteq> set (map fw_points (fireworks sys))"
    unfolding update_ids [OF u] by auto
  with assms(2,3) show ?thesis by (auto simp: update_fields(5) [OF u])
qed

lemma run_never_back:
  "FireworkSystem_run sys cs = Some sys' \<Longrightarrow> p < next_object sys
     \<Longrightarrow> p \<notin> fw_points ` set (fireworks sys)
     \<Longrightarrow> p \<notin> fw_points ` set (fireworks sys')"
proof (induction cs arbitrary: sys)
  case Nil
  then show ?case by simp
next
  case (Cons c cs)
  from Cons.prems(1) obtain mid where
    c: "FireworkSystem_call sys c = Some mid" and rest: "FireworkSystem_run mid cs = Some sys'"
    by (auto split: option.splits)
  from call_never_back [OF c Cons.prems(2,3)] Cons.IH [OF rest] show ?case by blast
qed

text \<open>
  Claim C10. \<open>update(time, dt)\<close> returns, and after it every firework in the active
  list has \<open>(time - startTime) / lifetime < 1\<close>; every firework whose normalized time
  had reached 1 is removed from the scene, its geometry and its material are disposed,
  and its object is never among the active fireworks again, whatever is called later.
\<close>

theorem FireworkSystem_update_drops_expired:
  assumes "FireworkSystem_inv sys"
  shows "\<exists>sys'. FireworkSystem_update time dt sys = Some sys'
    \<and> (\<forall>f\<in>set (fireworks sys'). (time - fw_startTime f) / fw_lifetime f < 1)
    \<and> fireworks sys' = map (advance time) (filter (\<lambda>f. \<not> expired time f) (fireworks sys))
    \<and> (\<forall>f\<in>set (fireworks sys). (time - fw_startTime f) / fw_lifetime f \<ge> 1 \<longrightarrow>
          fw_points f \<notin> set (scene_children sys')
          \<and> fw_points f \<in> set (disposed_geometries sys')
          \<and> fw_points f \<in> set (disposed_materials sys')
          \<and> (\<forall>calls sys''. FireworkSystem_run sys' calls = Some sys'' \<longrightarrow>
                fw_points f \<notin> fw_points ` set (fireworks sys'')))
    \<and> FireworkSystem_inv sys'"
proof -
  obtain sys' where u: "FireworkSystem_update time dt sys = Some sys'"
    by (simp add: FireworkSystem_update_eq)
  note fields = update_fields [OF u]
  have active: "\<forall>f\<in>set (fireworks sys'). (time - fw_startTime f) / fw_lifetime f < 1"
    by (auto simp: fields(1) advance_keeps expired_def)
  have gone: "fw_points f \<notin> set (scene_children sys')
          \<and> fw_points f \<in> set (disposed_geometries sys')
          \<and> fw_points f \<in> set (disposed_materials sys')
          \<and> (\<forall>calls sys''. FireworkSystem_run sys' calls = Some sys'' \<longrightarrow>
                fw_points f \<notin> fw_points ` set (fireworks sys''))"
    if f: "f \<in> set (fireworks sys)" and late: "(time - fw_startTime f) / fw_lifetime f \<ge> 1" for f
  proof -
    have ex: "expired time f" using late by (simp add: expired_def)
    have old: "fw_points f < next_object sys'"
      using assms f by (simp add: FireworkSystem_inv_def fields(5))
    have other: "fw_points g \<noteq> fw_points f" if "g \<in> set (fireworks sys)" "\<not> expired time g" for g
      using assms f ex that by (auto simp: FireworkSystem_inv_def distinct_map inj_on_def)
    have out: "fw_points f \<notin> fw_points ` set (fireworks sys')"
    proof
      assume "fw_points f \<in> fw_points ` set (fireworks sys')"
      then obtain g where "g \<in> set (fireworks sys)" "\<not> expired time g" "fw_points g = fw_points f"
        unfolding fields(1) by (force simp: advance_keeps)
      with other show False by blast
    qed
    have never: "\<forall>calls sys''. FireworkSystem_run sys' calls = Some sys'' \<longrightarrow>
                fw_points f \<notin> fw_points ` set (fireworks sys'')"
      using run_never_back [OF _ old out] by blast
    from f ex never show ?thesis by (auto simp: fields)
  qed
  from u active fields(1) gone update_inv [OF assms u] show ?thesis by blast
qed

theorem FireworkSystem_update_drops_expired_witness:
  "\<exists>sys'. FireworkSystem_update 4 1 two_fireworks = Some sys'
     \<and> map fw_points (fireworks sys') = [1]
     \<and> 0 \<notin> set (scene_children sys')
     \<and> 0 \<in> set (disposed_geometries sys')
     \<and> 0 \<in> set (disposed_materials sys')"
proof -
  have inv: "FireworkSystem_inv two_fireworks"
    by (simp add: FireworkSystem_inv_def two_fireworks_def)
  from FireworkSystem_update_drops_expired [OF inv, of 4 1]
  obtain sys' where u: "FireworkSystem_update 4 1 two_fireworks = Some sys'"
    and fs: "fireworks sys' = map (advance 4) (filter (\<lambda>f. \<not> expired 4 f) (fireworks two_fireworks))"
    and gone: "\<forall>f\<in>set (fireworks two_fireworks). (4 - fw_startTime f) / fw_lifetime f \<ge> 1 \<longrightarrow>
          fw_points f \<notin> set (scene_children sys')
          \<and> fw_points f \<in> set (disposed_geometries sys')
          \<and> fw_points f \<in> set (disposed_materials sys')
          \<and> (\<forall>calls sys''. FireworkSystem_run sys' calls = Some sys'' \<longrightarrow>
                fw_points f \<notin> fw_points ` set (fireworks sys''))"
    by blast
  have ids: "map fw_points (fireworks sys') = [1]"
    unfolding fs by (simp add: two_fireworks_def expired_def advance_keeps)
  from gone have out: "0 \<notin> set (scene_children sys')
     \<and> 0 \<in> set (disposed_geometries sys') \<and> 0 \<in> set (disposed_materials sys')"
    by (simp add: two_fireworks_def)
  show ?thesis
    by (rule exI [of _ sys']) (simp add: u ids out)
qed

section \<open>Properties of the orchestrator\<close>

lemma updateProgress_trace:
  "trace (updateProgress p ph time s) =
     trace s
     @ (if ph = climax \<and> phase s \<noteq> climax
        then [burstSystem_trigger time, shockwaveSystem_triggerClimax time,
              flashPlane_triggerFlash 1]
        else [])
     @ (if ph = celebration \<and> phase s \<noteq> celebration
        then map (\<lambda>i. setTimeout (real i * 200)) [0..<5]
        else [])"
  by (simp add: updateProgress_def triggerClimax_def triggerCelebration_def Let_def)

lemma updateProgress_phase: "phase (updateProgress p ph time s) = ph"
  by (simp add: updateProgress_def triggerClimax_def triggerCelebration_def Let_def)

lemma burst_triggers_append: "burst_triggers (xs @ ys) = burst_triggers xs + burst_triggers ys"
  by (simp add: burst_triggers_def)

lemma shockwave_triggers_append:
  "shockwave_triggers (xs @ ys) = shockwave_triggers xs + shockwave_triggers ys"
  by (simp add: shockwave_triggers_def)

lemma flash_triggers_append: "flash_triggers (xs @ ys) = flash_triggers xs + flash_triggers ys"
  by (simp add: flash_triggers_def)

lemma timers_set_append: "timers_set (xs @ ys) = timers_set xs + timers_set ys"
  by (simp add: timers_set_def)

lemma timers_set_timeouts: "timers_set (map (\<lambda>i. setTimeout (f i)) xs) = length xs"
  by (simp add: timers_set_def)

lemma no_triggers_timeouts:
  "burst_triggers (map (\<lambda>i. setTimeout (f i)) xs) = 0"
  "shockwave_triggers (map (\<lambda>i. setTimeout (f i)) xs) = 0"
  "flash_triggers (map (\<lambda>i. setTimeout (f i)) xs) = 0"
  by (simp_all add: burst_triggers_def shockwave_triggers_def flash_triggers_def)

lemma updateProgress_counts:
  "burst_triggers (trace (updateProgress p ph time s)) =
     burst_triggers (trace s) + (if ph = climax \<and> phase s \<noteq> climax then 1 else 0)"
  "shockwave_triggers (trace (updateProgress p ph time s)) =
     shockwave_triggers (trace s) + (if ph = climax \<and> phase s \<noteq> climax then 1 else 0)"
  "flash_triggers (trace (updateProgress p ph time s)) =
     flash_triggers (trace s) + (if ph = climax \<and> phase s \<noteq> climax then 1 else 0)"
  "timers_set (trace (updateProgress p ph time s)) =
     timers_set (trace s) + (if ph = celebration \<and> phase s \<noteq> celebration then 5 else 0)"
  by (simp_all add: updateProgress_trace burst_triggers_append shockwave_triggers_append
      flash_triggers_append timers_set_append timers_set_timeouts no_triggers_timeouts)
     (simp_all add: burst_triggers_def shockwave_triggers_def flash_triggers_def timers_set_def)

lemma updateProgress_run_Cons:
  "updateProgress_run ((p, ph, time) # calls) s = updateProgress_run calls (updateProgress p ph time s)"
  by (simp add: updateProgress_run_def)

lemma updateProgress_run_Nil: "updateProgress_run [] s = s"
  by (simp add: updateProgress_run_def)

lemma updateProgress_run_counts:
  "burst_triggers (trace (updateProgress_run calls s)) =
     burst_triggers (trace s) + entries climax (phase s) (map (\<lambda>c. fst (snd c)) calls)
   \<and> shockwave_triggers (trace (updateProgress_run calls s)) =
     shockwave_triggers (trace s) + entries climax (phase s) (map (\<lambda>c. fst (snd c)) calls)
   \<and> flash_triggers (trace (updateProgress_run calls s)) =
     flash_triggers (trace s) + entries climax (phase s) (map (\<lambda>c. fst (snd c)) calls)
   \<and> timers_set (trace (updateProgress_run calls s)) =
     timers_set (trace s) + 5 * entries celebration (phase s) (map (\<lambda>c. fst (snd c)) calls)"
proof (induction calls arbitrary: s)
  case Nil
  show ?case by (simp add: updateProgress_run_Nil)
next
  case (Cons c calls)
  obtain p ph time where c: "c = (p, ph, time)" by (cases c) auto
  show ?case
    unfolding c updateProgress_run_Cons
    using Cons.IH [of "updateProgress p ph time s"]
    by (simp add: updateProgress_counts updateProgress_phase)
qed

lemma entries_same:
  "\<forall>x\<in>set xs. x = ph \<Longrightarrow> entries ph previous xs = (if xs \<noteq> [] \<and> previous \<noteq> ph then 1 else 0)"
  by (induction xs arbitrary: previous) auto

text \<open>
  Claim C1. A call \<open>updateProgress(progress, phase)\<close> fires \<open>triggerClimax\<close> (the
  burst, the shockwaves, the full flash) exactly when the new phase is climax and the
  stored phase was not, and \<open>triggerCelebration\<close> (the five timers) exactly when the
  new phase is celebration and the stored phase was not; a call with the stored phase
  fires nothing. Over a run of calls the number of climax triggers is the number of
  entries into climax from another phase: while the phase stays climax the sequence
  fires exactly once.
\<close>

theorem updateProgress_edge_triggered:
  "trace (updateProgress p ph time s) =
     trace s
     @ (if ph = climax \<and> phase s \<noteq> climax
        then [burstSystem_trigger time, shockwaveSystem_triggerClimax time,
              flashPlane_triggerFlash 1]
        else [])
     @ (if ph = celebration \<and> phase s \<noteq> celebration
        then map (\<lambda>i. setTimeout (real i * 200)) [0..<5]
        else [])
   \<and> (ph = phase s \<longrightarrow> trace (updateProgress p ph time s) = trace s)
   \<and> burst_triggers (trace (updateProgress_run calls s)) =
       burst_triggers (trace s) + entries climax (phase s) (map (\<lambda>c. fst (snd c)) calls)
   \<and> shockwave_triggers (trace (updateProgress_run calls s)) =
       shockwave_triggers (trace s) + entries climax (phase s) (map (\<lambda>c. fst (snd c)) calls)
   \<and> flash_triggers (trace (updateProgress_run calls s)) =
       flash_triggers (trace s) + entries climax (phase s) (map (\<lambda>c. fst (snd c)) calls)
   \<and> timers_set (trace (updateProgress_run calls s)) =
       timers_set (trace s) + 5 * entries celebration (phase s) (map (\<lambda>c. fst (snd c)) calls)
   \<and> (calls \<noteq> [] \<and> (\<forall>c\<in>set calls. fst (snd c) = climax) \<and> phase s \<noteq> climax \<longrightarrow>
        burst_triggers (trace (updateProgress_run calls s)) = burst_triggers (trace s) + 1
        \<and> shockwave_triggers (trace (updateProgress_run calls s)) = shockwave_triggers (trace s) + 1
        \<and> flash_triggers (trace (updateProgress_run calls s)) = flash_triggers (trace s) + 1)
   \<and> ((\<forall>c\<in>set calls. fst (snd c) = climax) \<and> phase s = climax \<longrightarrow>
        trace (updateProgress_run calls s) = trace s)"
proof -
  have one: "trace (updateProgress p ph time s) =
     trace s
     @ (if ph = climax \<and> phase s \<noteq> climax
        then [burstSystem_trigger time, shockwaveSystem_triggerClimax time,
              flashPlane_triggerFlash 1]
        else [])
     @ (if ph = celebration \<and> phase s \<noteq> celebration
        then map (\<lambda>i. setTimeout (real i * 200)) [0..<5]
        else [])"
    by (rule updateProgress_trace)
  have same: "ph = phase s \<longrightarrow> trace (updateProgress p ph time s) = trace s"
    by (simp add: updateProgress_trace)
  note run = updateProgress_run_counts [of calls s]
  have once: "calls \<noteq> [] \<and> (\<forall>c\<in>set calls. fst (snd c) = climax) \<and> phase s \<noteq> climax \<longrightarrow>
        burst_triggers (trace (updateProgress_run calls s)) = burst_triggers (trace s) + 1
        \<and> shockwave_triggers (trace (updateProgress_run calls s)) = shockwave_triggers (trace s) + 1
        \<and> flash_triggers (trace (updateProgress_run calls s)) = flash_triggers (trace s) + 1"
  proof (intro impI)
    assume h: "calls \<noteq> [] \<and> (\<forall>c\<in>set calls. fst (snd c) = climax) \<and> phase s \<noteq> climax"
    then have "entries climax (phase s) (map (\<lambda>c. fst (snd c)) calls) = 1"
      by (subst entries_same) auto
    with run show "burst_triggers (trace (updateProgress_run calls s)) = burst_triggers (trace s) + 1
        \<and> shockwave_triggers (trace (updateProgress_run calls s)) = shockwave_triggers (trace s) + 1
        \<and> flash_triggers (trace (updateProgress_run calls s)) = flash_triggers (trace s) + 1"
      by simp
  qed
  have stay: "(\<forall>c\<in>set calls. fst (snd c) = climax) \<and> phase s = climax \<longrightarrow>
        trace (updateProgress_run calls s) = trace s"
  proof (induction calls arbitrary: s)
    case Nil
    show ?case by (simp add: updateProgress_run_Nil)
  next
    case (Cons c calls)
    obtain p' ph' time' where c: "c = (p', ph', time')" by (cases c) auto
    show ?case
      unfolding c updateProgress_run_Cons
      using Cons.IH [of "updateProgress p' ph' time' s"]
      by (auto simp: updateProgress_trace updateProgress_phase)
  qed
  from one same run once stay show ?thesis by blast
qed

theorem updateProgress_edge_triggered_witness:
  "trace (updateProgress 0 dormant 1 (Scene_fields 1)) = trace (Scene_fields 1)
   \<and> burst_triggers (trace (updateProgress_run [(1, climax, 2), (1, climax, 3)] (Scene_fields 1))) = 1
   \<and> shockwave_triggers (trace (updateProgress_run [(1, climax, 2), (1, climax, 3)] (Scene_fields 1))) = 1
   \<and> flash_triggers (trace (updateProgress_run [(1, climax, 2), (1, climax, 3)] (Scene_fields 1))) = 1
   \<and> trace (updateProgress_run [(1, climax, 4), (1, climax, 5)] (updateProgress 1 climax 3 (Scene_fields 1)))
       = trace (updateProgress 1 climax 3 (Scene_fields 1))"
proof -
  have a: "trace (updateProgress 0 dormant 1 (Scene_fields 1)) = trace (Scene_fields 1)"
    using updateProgress_edge_triggered [of 0 dormant 1 "Scene_fields 1" "[]"]
    by (simp add: Scene_fields_def)
  have b: "burst_triggers (trace (updateProgress_run [(1, climax, 2), (1, climax, 3)] (Scene_fields 1))) = 1
   \<and> shockwave_triggers (trace (updateProgress_run [(1, climax, 2), (1, climax, 3)] (Scene_fields 1))) = 1
   \<and> flash_triggers (trace (updateProgress_run [(1, climax, 2), (1, climax, 3)] (Scene_fields 1))) = 1"
    using updateProgress_edge_triggered [of 0 dormant 1 "Scene_fields 1" "[(1, climax, 2), (1, climax, 3)]"]
    by (simp add: Scene_fields_def burst_triggers_def shockwave_triggers_def flash_triggers_def)
  have c: "trace (updateProgress_run [(1, climax, 4), (1, climax, 5)] (updateProgress 1 climax 3 (Scene_fields 1)))
       = trace (updateProgress 1 climax 3 (Scene_fields 1))"
    using updateProgress_edge_triggered [of 0 dormant 1 "updateProgress 1 climax 3 (Scene_fields 1)"
        "[(1, climax, 4), (1, climax, 5)]"]
    by (simp add: updateProgress_phase)
  from a b c show ?thesis by blast
qed

lemma run_callbacks_disposed: "isDisposed s \<Longrightarrow> run_callbacks s cbs = Some s"
proof (induction cbs)
  case Nil
  show ?case by simp
next
  case (Cons c cbs)
  then show ?case
    by (cases c) (simp_all add: animate_def celebrationSpawn_def)
qed

text \<open>
  Claim C8. \<open>dispose\<close> sets the disposed flag. Once the flag is set, the frame callback
  returns the state as it is, with no call made (none of \<open>requestAnimationFrame\<close>
  either), and a pending celebration timer spawns nothing; so does any sequence of
  such callbacks.
\<close>

theorem dispose_stops_callbacks:
  "isDisposed (dispose s)
   \<and> animate f (dispose s) = Some (dispose s)
   \<and> celebrationSpawn time (dispose s) = dispose s
   \<and> run_callbacks (dispose s) cbs = Some (dispose s)
   \<and> (isDisposed s' \<longrightarrow>
        animate f s' = Some s' \<and> celebrationSpawn time s' = s' \<and> run_callbacks s' cbs = Some s')"
proof -
  have d: "isDisposed (dispose s)" by (simp add: dispose_def)
  have any: "isDisposed s' \<longrightarrow>
        animate f s' = Some s' \<and> celebrationSpawn time s' = s' \<and> run_callbacks s' cbs = Some s'" for s'
    by (simp add: animate_def celebrationSpawn_def run_callbacks_disposed)
  from d any [of "dispose s"] any [of s'] show ?thesis by blast
qed

theorem dispose_stops_callbacks_witness:
  "animate example_frame (dispose (Scene_fields 1)) = Some (dispose (Scene_fields 1))
   \<and> celebrationSpawn 2 (dispose (Scene_fields 1)) = dispose (Scene_fields 1)
   \<and> run_callbacks (dispose (Scene_fields 1)) [AnimationFrame example_frame, CelebrationTimer 2]
       = Some (dispose (Scene_fields 1))"
proof -
  have d: "isDisposed (dispose (Scene_fields 1))"
    by (simp add: dispose_def)
  from dispose_stops_callbacks
    [where s' = "dispose (Scene_fields 1)" and f = example_frame and time = 2
       and cbs = "[AnimationFrame example_frame, CelebrationTimer 2]"]
  have "isDisposed (dispose (Scene_fields 1)) \<longrightarrow>
      animate example_frame (dispose (Scene_fields 1)) = Some (dispose (Scene_fields 1))
      \<and> celebrationSpawn 2 (dispose (Scene_fields 1)) = dispose (Scene_fields 1)
      \<and> run_callbacks (dispose (Scene_fields 1)) [AnimationFrame example_frame, CelebrationTimer 2]
          = Some (dispose (Scene_fields 1))"
    by blast
  with d show ?thesis by blast
qed

text \<open>Without the flag the callbacks do their work: a frame always returns, and it
  starts by requesting the next frame; a celebration timer spawns a firework.\<close>

lemma Math_pow_positive_base: "0 < x \<Longrightarrow> \<exists>p. Math_pow x y = Some p"
  by (simp add: Math_pow_def)

lemma Math_pow_integer_exponent: "\<exists>p. Math_pow x 8 = Some p"
  by (simp add: Math_pow_def)

lemma Math_pow_nonneg_base: "0 \<le> x \<Longrightarrow> 0 < y \<Longrightarrow> \<exists>p. Math_pow x y = Some p"
  by (auto simp: Math_pow_def)

lemma ease_dramaticRamp_defined: "\<exists>v. ease_dramaticRamp t = Some v"
proof (cases "t < 0.83")
  case True
  then have "ease_dramaticRamp t = Some (t / 0.83 * 0.3)"
    by (simp add: ease_dramaticRamp_def)
  then show ?thesis by blast
next
  case False
  then have "0 \<le> (t - 0.83) / 0.17" by simp
  then obtain p where "Math_pow ((t - 0.83) / 0.17) 2.5 = Some p"
    using Math_pow_nonneg_base [of "(t - 0.83) / 0.17" "2.5"] by auto
  then have "ease_dramaticRamp t = Some (0.3 + p * 0.7)"
    using False unfolding ease_dramaticRamp_def Let_def by simp
  then show ?thesis by blast
qed

lemma ease_outExpo_defined: "\<exists>v. ease_outExpo t = Some v"
  by (simp add: ease_outExpo_def Math_pow_def)

lemma smoothLerp_defined: "speed < 1 \<Longrightarrow> \<exists>v. smoothLerp a b speed dt = Some v"
  by (simp add: smoothLerp_def Math_pow_def)

lemma updateCamera_defined: "\<exists>s'. updateCamera time dt di rnd s = Some s' \<and> isDisposed s' = isDisposed s
   \<and> (\<exists>c. trace s' = trace s @ [c])"
proof -
  obtain bx "by" bz where b: "basePosition s = (bx, by, bz)" by (cases "basePosition s") auto
  obtain cx cy cz where c: "camera_position s = (cx, cy, cz)" by (cases "camera_position s") auto
  obtain r1 r2 r3 where r: "rnd = (r1, r2, r3)" by (cases rnd) auto
  obtain e where e: "ease_outExpo ((time - the (climaxStartTime s) - 0.5) / 1.0) = Some e"
    using ease_outExpo_defined by blast
  obtain x where x: "smoothLerp cx (bx + sin (time * (0.05 + di * 0.1)) * (2 + di * 3) + (r1 - 0.5) * shakeIntensity s) 0.05 dt = Some x"
    using smoothLerp_defined [of "0.05"] by force
  obtain y where y: "smoothLerp cy (by + cos (time * (0.05 + di * 0.1) * 0.7) * (2 + di * 3) * 0.5 + (r2 - 0.5) * shakeIntensity s) 0.05 dt = Some y"
    using smoothLerp_defined [of "0.05"] by force
  obtain z where z: "smoothLerp cz (bz + (r3 - 0.5) * shakeIntensity s * 0.5) 0.05 dt = Some z"
    using smoothLerp_defined [of "0.05"] by force
  show ?thesis
    unfolding updateCamera_def b c r
    using e x y z by (cases "climaxStartTime s") (auto simp: Let_def)
qed

lemma updateFOV_defined: "\<exists>s'. updateFOV di delta s = Some s' \<and> isDisposed s' = isDisposed s
   \<and> (\<exists>c. trace s' = trace s @ [c])"
proof -
  obtain v where "smoothLerp (camera_fov s) (baseFOV s - di * 15 + heartbeatIntensity s * di * 3) 0.1
                 (if delta = 0 then 0.016 else delta) = Some v"
    using smoothLerp_defined [of "0.1"] by force
  then show ?thesis by (simp add: updateFOV_def Let_def)
qed

lemma spawnDuringCelebration_trace:
  "\<exists>cs. trace (spawnDuringCelebration time f s) = trace s @ cs"
  by (simp add: spawnDuringCelebration_def Let_def)

lemma updateSignals_defined:
  "\<exists>di s'. updateSignals time dt s = Some (di, s') \<and> isDisposed s' = isDisposed s
     \<and> animationFrameId s' = animationFrameId s \<and> (\<exists>cs. trace s' = trace s @ cs)"
proof -
  obtain di where di: "ease_dramaticRamp (progress s) = Some di"
    using ease_dramaticRamp_defined by blast
  obtain sm where sm: "smoothLerp (smoothProgress s) (progress s) 0.1 dt = Some sm"
    using smoothLerp_defined [of "0.1"] by force
  obtain hb where hb: "Math_pow (sin ((pulsePhase s + dt * (1 + di * 4)) * pi)) 8 = Some hb"
    using Math_pow_integer_exponent by blast
  obtain sh where sh: "smoothLerp (shakeIntensity s) (targetShakeIntensity s) 0.1 dt = Some sh"
    using smoothLerp_defined [of "0.1"] by force
  show ?thesis
    unfolding updateSignals_def by (simp add: di sm hb sh Let_def)
qed

lemma animate_alive:
  assumes "\<not> isDisposed s"
  shows "\<exists>s' cs. animate f s = Some s' \<and> trace s' = trace s @ requestAnimationFrame # cs"
proof -
  let ?s0 = "s \<lparr> animationFrameId := Some (frame_handle f),
                     trace := trace s @ [requestAnimationFrame] \<rparr>"
  let ?time = "clock_elapsedTime f"
  let ?dt = "min (clock_delta f) 0.1"
  obtain di s1 cs1 where s1: "updateSignals ?time ?dt ?s0 = Some (di, s1)" "trace s1 = trace ?s0 @ cs1"
    using updateSignals_defined [of ?time ?dt ?s0] by blast
  let ?s2 = "spawnDuringCelebration ?time f s1"
  obtain cs2 where cs2: "trace ?s2 = trace s1 @ cs2"
    using spawnDuringCelebration_trace by blast
  obtain s3 c3 where s3: "updateCamera ?time ?dt di (random_shake f) ?s2 = Some s3"
      "trace s3 = trace ?s2 @ [c3]"
    using updateCamera_defined [of ?time ?dt di "random_shake f" ?s2] by blast
  obtain s4 c4 where s4: "updateFOV di (clock_delta_fov f) s3 = Some s4" "trace s4 = trace s3 @ [c4]"
    using updateFOV_defined [of di "clock_delta_fov f" s3] by blast
  have "animate f s = Some (s4 \<lparr> trace := trace s4 @ [renderer_render] \<rparr>)"
    using assms by (simp add: animate_def Let_def s1 s3 s4)
  moreover have "trace (s4 \<lparr> trace := trace s4 @ [renderer_render] \<rparr>)
      = trace s @ requestAnimationFrame # (cs1 @ cs2 @ [c3, c4, renderer_render])"
    by (simp add: s4 s3 cs2 s1)
  ultimately show ?thesis by blast
qed

lemma animate_defined: "\<exists>s'. animate f s = Some s'"
  using animate_alive [of s f] by (cases "isDisposed s") (auto simp: animate_def)

lemma celebrationSpawn_alive:
  "\<not> isDisposed s \<Longrightarrow> trace (celebrationSpawn time s) = trace s @ [fireworkSystem_spawn time]"
  by (simp add: celebrationSpawn_def)

end
